theory Spec2Isabelle
  imports Complex_Main
begin

section \<open>Python values, exceptions and text\<close>

text \<open>
  The recommendation pipeline of the repository (processors, rankers and the product
  manager) is embedded function by function. Conventions of the embedding:
  \<^item> a Python \<open>float\<close> is the real number it denotes: rounding, infinities and NaN are
    not modelled. The texts \<open>inf\<close>, \<open>infinity\<close> and \<open>nan\<close>, which \<open>float()\<close> reads as
    an infinity or a NaN, count as unparsable here, and so does an integer too large for
    a float (\<open>OverflowError\<close> in Python). Statements about scores are therefore
    statements about products whose numeric fields are finite numbers, and a strict
    inequality between scores is stated only where the scores lie in a range (0 to 100)
    in which the additions of the code are far coarser than the rounding of a float;
  \<^item> a Python \<open>str\<close> is a \<open>string\<close>, read as its UTF-8 bytes; case mapping, white
    space and digits are those of the ASCII range, and on text outside that range
    lengths, slices and iteration count bytes;
  \<^item> a raw JSON record and a preference dictionary hold values of type \<open>pyval\<close>;
  \<^item> a raised exception is the \<open>Inl\<close> branch of a sum; \<open>print\<close> is not modelled.
\<close>

datatype error = AttributeError | TypeError | ValueError | KeyError | LoaderError

datatype pyval =
    PNone
  | PBool bool
  | PInt int
  | PFloat real
  | PStr string
  | PList "pyval list"
  | PDict "(string \<times> pyval) list"

type_synonym pydict = "(string \<times> pyval) list"

definition and_then :: "error + 'a \<Rightarrow> ('a \<Rightarrow> error + 'b) \<Rightarrow> error + 'b" where
  "and_then m f = (case m of Inl e \<Rightarrow> Inl e | Inr x \<Rightarrow> f x)"

text \<open>\<open>d.get(k)\<close> and \<open>d.get(k, default)\<close>.\<close>

definition dict_get :: "pydict \<Rightarrow> string \<Rightarrow> pyval" where
  "dict_get d k = (case map_of d k of Some v \<Rightarrow> v | None \<Rightarrow> PNone)"

definition dict_get_or :: "pydict \<Rightarrow> string \<Rightarrow> pyval \<Rightarrow> pyval" where
  "dict_get_or d k dflt = (case map_of d k of Some v \<Rightarrow> v | None \<Rightarrow> dflt)"

text \<open>Truth value of an object in a condition.\<close>

fun truthy :: "pyval \<Rightarrow> bool" where
  "truthy PNone = False"
| "truthy (PBool b) = b"
| "truthy (PInt i) = (i \<noteq> 0)"
| "truthy (PFloat r) = (r \<noteq> 0)"
| "truthy (PStr s) = (s \<noteq> [])"
| "truthy (PList xs) = (xs \<noteq> [])"
| "truthy (PDict d) = (d \<noteq> [])"

subsection \<open>Strings\<close>

definition lower_char :: "char \<Rightarrow> char" where
  "lower_char c =
     (case map_of (zip ''ABCDEFGHIJKLMNOPQRSTUVWXYZ'' ''abcdefghijklmnopqrstuvwxyz'') c of
        Some d \<Rightarrow> d
      | None \<Rightarrow> c)"

definition lower :: "string \<Rightarrow> string" where
  "lower s = map lower_char s"

definition is_space :: "char \<Rightarrow> bool" where
  "is_space c = (c \<in> set [CHR '' '', CHR 0x09, CHR 0x0A, CHR 0x0B, CHR 0x0C, CHR 0x0D,
                            CHR 0x1C, CHR 0x1D, CHR 0x1E, CHR 0x1F])"

definition is_digit :: "char \<Rightarrow> bool" where
  "is_digit c = (c \<in> set ''0123456789'')"

definition strip :: "string \<Rightarrow> string" where
  "strip s = rev (dropWhile is_space (rev (dropWhile is_space s)))"

fun starts_with :: "string \<Rightarrow> string \<Rightarrow> bool" where
  "starts_with [] s = True"
| "starts_with (p # ps) [] = False"
| "starts_with (p # ps) (c # cs) = (p = c \<and> starts_with ps cs)"

text \<open>\<open>str_in sub s\<close> is Python's \<open>sub in s\<close> on strings.\<close>

fun str_in :: "string \<Rightarrow> string \<Rightarrow> bool" where
  "str_in sub [] = (sub = [])"
| "str_in sub (c # cs) = (starts_with sub (c # cs) \<or> str_in sub cs)"

text \<open>\<open>s.split()\<close>: the maximal runs of characters that are not white space.\<close>

fun words_acc :: "string \<Rightarrow> string \<Rightarrow> string list" where
  "words_acc cur [] = (if cur = [] then [] else [rev cur])"
| "words_acc cur (c # cs) =
     (if is_space c then (if cur = [] then words_acc [] cs else rev cur # words_acc [] cs)
      else words_acc (c # cur) cs)"

definition split_ws :: "string \<Rightarrow> string list" where
  "split_ws s = words_acc [] s"

text \<open>\<open>s.split(sep)\<close> for a one-character separator: never an empty list.\<close>

fun split_acc :: "char \<Rightarrow> string \<Rightarrow> string \<Rightarrow> string list" where
  "split_acc sep cur [] = [rev cur]"
| "split_acc sep cur (c # cs) =
     (if c = sep then rev cur # split_acc sep [] cs else split_acc sep (c # cur) cs)"

definition split_on :: "char \<Rightarrow> string \<Rightarrow> string list" where
  "split_on sep s = split_acc sep [] s"

fun join :: "string \<Rightarrow> string list \<Rightarrow> string" where
  "join sep [] = []"
| "join sep [x] = x"
| "join sep (x # y # ys) = x @ sep @ join sep (y # ys)"

text \<open>Order of strings (by code point), and \<open>max\<close> of a non-empty list of strings,
  which returns the first of the greatest elements.\<close>

fun str_less :: "string \<Rightarrow> string \<Rightarrow> bool" where
  "str_less [] [] = False"
| "str_less [] (d # ds) = True"
| "str_less (c # cs) [] = False"
| "str_less (c # cs) (d # ds) = ((of_char c :: nat) < of_char d \<or> (c = d \<and> str_less cs ds))"

definition str_max :: "string list \<Rightarrow> string" where
  "str_max xs = foldl (\<lambda>m x. if str_less m x then x else m) (hd xs) (tl xs)"

subsection \<open>Numbers and text\<close>

fun digits_of :: "nat \<Rightarrow> string" where
  "digits_of n =
     (if n < 10 then [''0123456789'' ! n]
      else digits_of (n div 10) @ [''0123456789'' ! (n mod 10)])"

declare digits_of.simps [simp del]

definition show_int :: "int \<Rightarrow> string" where
  "show_int i = (if i < 0 then CHR ''-'' # digits_of (nat (- i)) else digits_of (nat i))"

definition digit_val :: "char \<Rightarrow> nat" where
  "digit_val c =
     (case map_of (zip ''0123456789'' [0, 1, 2, 3, 4, 5, 6, 7, 8, 9]) c of
        Some n \<Rightarrow> n
      | None \<Rightarrow> 0)"

definition nat_of_digits :: "string \<Rightarrow> nat" where
  "nat_of_digits ds = foldl (\<lambda>a c. 10 * a + digit_val c) 0 ds"

text \<open>A group of decimal digits as \<open>int\<close> and \<open>float\<close> read it: not empty, with single
  underscores allowed between digits. The result is the digits without the underscores.\<close>

fun digit_group :: "string \<Rightarrow> string option" where
  "digit_group [] = None"
| "digit_group [c] = (if is_digit c then Some [c] else None)"
| "digit_group (c # d # cs) =
     (if is_digit c
      then (if d = CHR ''_'' then map_option ((#) c) (digit_group cs)
            else map_option ((#) c) (digit_group (d # cs)))
      else None)"

definition split_sign :: "string \<Rightarrow> bool \<times> string" where
  "split_sign s =
     (case s of
        [] \<Rightarrow> (False, [])
      | c # cs \<Rightarrow>
          if c = CHR ''-'' then (True, cs)
          else if c = CHR ''+'' then (False, cs)
          else (False, s))"

text \<open>\<open>int(s)\<close> for a string: surrounding white space, a sign, a digit group.\<close>

definition int_of_string :: "string \<Rightarrow> error + int" where
  "int_of_string s =
     (let (neg, r) = split_sign (strip s) in
      case digit_group r of
        None \<Rightarrow> Inl ValueError
      | Some ds \<Rightarrow> Inr (if neg then - int (nat_of_digits ds) else int (nat_of_digits ds)))"

text \<open>\<open>float(s)\<close> for a string: surrounding white space, a sign, a decimal numeral
  (digits, with a fraction on either side of the point) and an optional exponent.\<close>

definition mantissa_of_string :: "string \<Rightarrow> real option" where
  "mantissa_of_string m =
     (let ip = takeWhile (\<lambda>c. c \<noteq> CHR ''.'') m;
          rest = dropWhile (\<lambda>c. c \<noteq> CHR ''.'') m
      in if rest = [] then map_option (\<lambda>ds. real (nat_of_digits ds)) (digit_group ip)
         else let fp = tl rest in
           if ip = [] then
             map_option (\<lambda>fs. real (nat_of_digits fs) / 10 ^ length fs) (digit_group fp)
           else if fp = [] then
             map_option (\<lambda>ds. real (nat_of_digits ds)) (digit_group ip)
           else
             (case (digit_group ip, digit_group fp) of
                (Some ds, Some fs) \<Rightarrow>
                  Some (real (nat_of_digits ds) + real (nat_of_digits fs) / 10 ^ length fs)
              | _ \<Rightarrow> None))"

definition scale10 :: "real \<Rightarrow> int \<Rightarrow> real" where
  "scale10 x e = (if 0 \<le> e then x * 10 ^ nat e else x / 10 ^ nat (- e))"

definition float_of_string :: "string \<Rightarrow> error + real" where
  "float_of_string s =
     (let (neg, r) = split_sign (strip s);
          is_e = (\<lambda>c. c = CHR ''e'' \<or> c = CHR ''E'');
          m = takeWhile (\<lambda>c. \<not> is_e c) r;
          rest = dropWhile (\<lambda>c. \<not> is_e c) r;
          ex = (if rest = [] then Some 0
                else (let (eneg, ed) = split_sign (tl rest) in
                      map_option (\<lambda>ds. if eneg then - int (nat_of_digits ds)
                                        else int (nat_of_digits ds))
                        (digit_group ed)))
      in case (mantissa_of_string m, ex) of
           (Some x, Some e) \<Rightarrow> Inr (if neg then - scale10 x e else scale10 x e)
         | _ \<Rightarrow> Inl ValueError)"

text \<open>\<open>float(v)\<close> and \<open>int(v)\<close> on any value.\<close>

fun py_float :: "pyval \<Rightarrow> error + real" where
  "py_float (PInt i) = Inr (real_of_int i)"
| "py_float (PFloat r) = Inr r"
| "py_float (PBool b) = Inr (if b then 1 else 0)"
| "py_float (PStr s) = float_of_string s"
| "py_float v = Inl TypeError"

fun py_int :: "pyval \<Rightarrow> error + int" where
  "py_int (PInt i) = Inr i"
| "py_int (PFloat r) = Inr (if 0 \<le> r then \<lfloor>r\<rfloor> else \<lceil>r\<rceil>)"
| "py_int (PBool b) = Inr (if b then 1 else 0)"
| "py_int (PStr s) = int_of_string s"
| "py_int v = Inl TypeError"

text \<open>What the interpreter decides and the repository does not: the salted hash of a
  string, the text of a float, of a float to one decimal (\<open>:.1f\<close>) and of a list or
  dictionary, and the order in which a set of strings is iterated.\<close>

record runtime =
  str_hash :: "string \<Rightarrow> int"
  float_repr :: "real \<Rightarrow> string"
  float_fmt1 :: "real \<Rightarrow> string"
  container_repr :: "pyval \<Rightarrow> string"
  set_order :: "string list \<Rightarrow> string list"

text \<open>\<open>str(v)\<close>, as an f-string renders a value.\<close>

definition py_str :: "runtime \<Rightarrow> pyval \<Rightarrow> string" where
  "py_str rt v =
     (case v of
        PNone \<Rightarrow> ''None''
      | PBool b \<Rightarrow> (if b then ''True'' else ''False'')
      | PInt i \<Rightarrow> show_int i
      | PFloat r \<Rightarrow> float_repr rt r
      | PStr s \<Rightarrow> s
      | _ \<Rightarrow> container_repr rt v)"

text \<open>Methods of \<open>str\<close> called on a value that may be of another type.\<close>

definition py_lower :: "pyval \<Rightarrow> error + string" where
  "py_lower v = (case v of PStr s \<Rightarrow> Inr (lower s) | _ \<Rightarrow> Inl AttributeError)"

definition py_strip :: "pyval \<Rightarrow> error + string" where
  "py_strip v = (case v of PStr s \<Rightarrow> Inr (strip s) | _ \<Rightarrow> Inl AttributeError)"

text \<open>Iterating a value: the items of a list, the characters of a string, the keys of a
  dictionary.\<close>

definition py_iter :: "pyval \<Rightarrow> error + pyval list" where
  "py_iter v =
     (case v of
        PList xs \<Rightarrow> Inr xs
      | PStr s \<Rightarrow> Inr (map (\<lambda>c. PStr [c]) s)
      | PDict d \<Rightarrow> Inr (map (\<lambda>kv. PStr (fst kv)) d)
      | _ \<Rightarrow> Inl TypeError)"

fun strings_of :: "pyval list \<Rightarrow> error + string list" where
  "strings_of [] = Inr []"
| "strings_of (PStr s # vs) = and_then (strings_of vs) (\<lambda>ss. Inr (s # ss))"
| "strings_of (v # vs) = Inl TypeError"

text \<open>\<open>' '.join(v)\<close>: every item must be a string.\<close>

definition py_join_space :: "pyval \<Rightarrow> error + string" where
  "py_join_space v =
     and_then (py_iter v) (\<lambda>items. and_then (strings_of items) (\<lambda>ss. Inr (join '' '' ss)))"

subsection \<open>Regular expressions\<close>

text \<open>The fragment of \<open>re\<close> the processors use: literals, greedy repetition of a character
  class, an optional part, sequence and one capturing group. \<open>rmatch r s\<close> lists the
  ways \<open>r\<close> matches a prefix of \<open>s\<close> in the order in which backtracking tries them, each
  with the text of the group and the rest of \<open>s\<close>.\<close>

datatype cclass = Digit | Space | ColonOrSpace

fun in_class :: "cclass \<Rightarrow> char \<Rightarrow> bool" where
  "in_class Digit c = is_digit c"
| "in_class Space c = is_space c"
| "in_class ColonOrSpace c = (c = CHR '':'' \<or> is_space c)"

datatype regex =
    Lit string
  | Rep nat cclass
  | Opt regex
  | Seq regex regex
  | Group regex

fun counts_down :: "nat \<Rightarrow> nat \<Rightarrow> nat list" where
  "counts_down n 0 = (if n = 0 then [0] else [])"
| "counts_down n (Suc k) = (if n \<le> Suc k then Suc k # counts_down n k else [])"

fun rmatch :: "regex \<Rightarrow> string \<Rightarrow> (string option \<times> string) list" where
  "rmatch (Lit l) s = (if starts_with l s then [(None, drop (length l) s)] else [])"
| "rmatch (Rep n cl) s =
     map (\<lambda>j. (None, drop j s)) (counts_down n (length (takeWhile (in_class cl) s)))"
| "rmatch (Opt r) s = rmatch r s @ [(None, s)]"
| "rmatch (Seq a b) s =
     concat (map (\<lambda>(c1, s1).
        map (\<lambda>(c2, s2). (case c2 of None \<Rightarrow> c1 | Some c \<Rightarrow> Some c, s2)) (rmatch b s1))
        (rmatch a s))"
| "rmatch (Group r) s =
     map (\<lambda>(c, s'). (Some (take (length s - length s') s), s')) (rmatch r s)"

text \<open>\<open>re.findall\<close> for a pattern with one group that matches no empty text: the group
  of the first match at the leftmost position, then on from the end of that match.\<close>

fun findall_from :: "regex \<Rightarrow> nat \<Rightarrow> string \<Rightarrow> string list" where
  "findall_from r skip [] = []"
| "findall_from r (Suc k) (c # cs) = findall_from r k cs"
| "findall_from r 0 (c # cs) =
     (case rmatch r (c # cs) of
        [] \<Rightarrow> findall_from r 0 cs
      | (cap, rest) # _ \<Rightarrow>
          (case cap of None \<Rightarrow> [] | Some g \<Rightarrow> g) # findall_from r (length cs - length rest) cs)"

definition findall :: "regex \<Rightarrow> string \<Rightarrow> string list" where
  "findall r s = findall_from r 0 s"

definition seqs :: "regex list \<Rightarrow> regex" where
  "seqs rs = foldr Seq rs (Lit [])"

section \<open>Data model\<close>

datatype ProductCategory = CREDIT_CARDS | FIXED_DEPOSITS | MUTUAL_FUNDS | INSURANCE | LOANS

text \<open>The \<open>value\<close> of a category, and \<open>list(ProductCategory)\<close>.\<close>

fun category_value :: "ProductCategory \<Rightarrow> string" where
  "category_value CREDIT_CARDS = ''credit_cards''"
| "category_value FIXED_DEPOSITS = ''fixed_deposits''"
| "category_value MUTUAL_FUNDS = ''mutual_funds''"
| "category_value INSURANCE = ''insurance''"
| "category_value LOANS = ''loans''"

definition all_categories :: "ProductCategory list" where
  "all_categories = [CREDIT_CARDS, FIXED_DEPOSITS, MUTUAL_FUNDS, INSURANCE, LOANS]"

text \<open>The dataclasses. A field that a processor fills with a raw value it has not
  converted keeps the type \<open>pyval\<close>; \<open>name\<close> and \<open>features\<close> hold text in every product a
  processor returns.\<close>

record ProductInfo =
  id' :: string
  name :: string
  description :: pyval
  category :: ProductCategory
  features :: "string list"

record CreditCardInfo = ProductInfo +
  bank :: pyval
  annual_fee :: "real option"
  cashback_rate :: "real option"
  reward_rate :: "real option"
  welcome_benefit :: "string option"
  fuel_surcharge_waiver :: bool
  lounge_access :: bool

record FixedDepositInfo = ProductInfo +
  bank_name :: pyval
  interest_rate_min :: "real option"
  interest_rate_max :: "real option"
  tenure_from_days :: "int option"
  tenure_to_days :: "int option"
  senior_citizen_rate :: "real option"

record MutualFundInfo = ProductInfo +
  amc :: pyval
  risk_level :: pyval
  rating :: int
  returns_1y :: "real option"
  returns_3y :: "real option"
  returns_5y :: "real option"
  nav :: "real option"
  aum :: "real option"
  expense_ratio :: "real option"
  min_investment :: "real option"
  fund_manager :: pyval
  inception_date :: pyval
  holdings :: pyval
  sector_allocation :: pyval

datatype product =
    CreditCard CreditCardInfo
  | FixedDeposit FixedDepositInfo
  | MutualFund MutualFundInfo

record ScoredProduct =
  product' :: product
  score :: real
  reasoning :: string

text \<open>Attributes read from a product of any category; \<open>risk_level_attr\<close> is
  \<open>getattr(product, 'risk_level', '')\<close>.\<close>

fun product_name :: "product \<Rightarrow> string" where
  "product_name (CreditCard c) = name c"
| "product_name (FixedDeposit f) = name f"
| "product_name (MutualFund m) = name m"

fun product_features :: "product \<Rightarrow> string list" where
  "product_features (CreditCard c) = features c"
| "product_features (FixedDeposit f) = features f"
| "product_features (MutualFund m) = features m"

fun product_category :: "product \<Rightarrow> ProductCategory" where
  "product_category (CreditCard c) = category c"
| "product_category (FixedDeposit f) = category f"
| "product_category (MutualFund m) = category m"

fun risk_level_attr :: "product \<Rightarrow> pyval" where
  "risk_level_attr (MutualFund m) = risk_level m"
| "risk_level_attr p = PStr []"

section \<open>Credit card processor\<close>

definition rupee :: string where
  "rupee = [CHR 0xE2, CHR 0x82, CHR 0xB9]"

definition number_group :: regex where
  "number_group = Group (Seq (Rep 1 Digit) (Opt (Seq (Lit ''.'') (Rep 1 Digit))))"

definition cashback_patterns :: "regex list" where
  "cashback_patterns =
     [seqs [number_group, Rep 0 Space, Lit ''%'', Rep 0 Space, Lit ''cashback''],
      seqs [Lit ''earn'', Rep 1 Space, number_group, Rep 0 Space, Lit ''%''],
      seqs [number_group, Rep 0 Space, Lit ''percent'', Rep 1 Space, Lit ''cashback'']]"

definition fee_patterns :: "regex list" where
  "fee_patterns =
     [seqs [Lit ''annual fee'', Rep 0 ColonOrSpace, Opt (Lit rupee), Rep 0 Space,
            Group (Rep 1 Digit)],
      seqs [Lit rupee, Rep 0 Space, Group (Rep 1 Digit), Rep 0 Space, Lit ''annual fee''],
      seqs [Lit ''joining fee'', Rep 0 ColonOrSpace, Opt (Lit rupee), Rep 0 Space,
            Group (Rep 1 Digit)]]"

definition cc_extract_features :: "pydict \<Rightarrow> error + pyval list" where
  "cc_extract_features raw_data =
     and_then
       (if map_of raw_data ''features'' \<noteq> None \<and> truthy (dict_get raw_data ''features'')
        then py_iter (dict_get raw_data ''features'') else Inr [])
       (\<lambda>explicit.
          let description = dict_get_or raw_data ''description'' (PStr []) in
          if truthy description then
            and_then (py_lower description) (\<lambda>d.
              let cashback_matches =
                    findall (seqs [number_group, Rep 0 Space, Lit ''%'', Rep 0 Space,
                                   Lit ''cashback'']) d
              in Inr (take 10
                   (explicit
                    @ (if cashback_matches \<noteq> []
                       then [PStr (''Up to '' @ str_max cashback_matches @ ''% cashback'')]
                       else [])
                    @ (if str_in ''fuel surcharge'' d then [PStr ''Fuel surcharge waiver'']
                       else [])
                    @ (if str_in ''lounge'' d then [PStr ''Airport lounge access''] else [])
                    @ (if str_in ''welcome'' d then [PStr ''Welcome benefits''] else []))))
          else Inr (take 10 explicit))"

fun fee_from_patterns :: "regex list \<Rightarrow> string \<Rightarrow> real option" where
  "fee_from_patterns [] d = None"
| "fee_from_patterns (p # ps) d =
     (case findall p d of
        [] \<Rightarrow> fee_from_patterns ps d
      | m # ms \<Rightarrow>
          (case float_of_string m of
             Inr r \<Rightarrow> Some r
           | Inl e \<Rightarrow> fee_from_patterns ps d))"

definition cc_extract_annual_fee :: "pydict \<Rightarrow> error + real option" where
  "cc_extract_annual_fee raw_data =
     (case (if map_of raw_data ''annual_fee'' \<noteq> None
            then (case py_float (dict_get raw_data ''annual_fee'') of
                    Inr r \<Rightarrow> Some r
                  | Inl e \<Rightarrow> None)
            else None) of
        Some r \<Rightarrow> Inr (Some r)
      | None \<Rightarrow>
          let description = dict_get_or raw_data ''description'' (PStr []) in
          if truthy description
          then and_then (py_lower description) (\<lambda>d. Inr (fee_from_patterns fee_patterns d))
          else Inr None)"

definition floats_of_matches :: "string list \<Rightarrow> real list" where
  "floats_of_matches ms =
     List.map_filter (\<lambda>m. case float_of_string m of Inr r \<Rightarrow> Some r | Inl e \<Rightarrow> None) ms"

definition cc_extract_cashback_rate :: "pydict \<Rightarrow> error + real option" where
  "cc_extract_cashback_rate raw_data =
     (let description = dict_get_or raw_data ''description'' (PStr []) in
      if truthy description then
        and_then (py_lower description) (\<lambda>d.
          let rates = concat (map (\<lambda>p. floats_of_matches (findall p d)) cashback_patterns)
          in Inr (if rates = [] then None else Some (fold max (tl rates) (hd rates))))
      else Inr None)"

fun first_welcome_line :: "string list \<Rightarrow> string option" where
  "first_welcome_line [] = None"
| "first_welcome_line (line # lines) =
     (if str_in ''welcome'' (lower line) then Some (take 100 (strip line))
      else first_welcome_line lines)"

definition cc_extract_welcome_benefit :: "pydict \<Rightarrow> error + string option" where
  "cc_extract_welcome_benefit raw_data =
     (let description = dict_get_or raw_data ''description'' (PStr []) in
      if truthy description then
        and_then (py_lower description) (\<lambda>d.
          if str_in ''welcome'' d
          then (case description of
                  PStr s \<Rightarrow> Inr (first_welcome_line (split_on (CHR 0x0A) s))
                | _ \<Rightarrow> Inl AttributeError)
          else Inr None)
      else Inr None)"

text \<open>\<open>description + ' '\<close>: a \<open>TypeError\<close> unless the description is a string.\<close>

definition py_add_str :: "pyval \<Rightarrow> string \<Rightarrow> error + string" where
  "py_add_str v t = (case v of PStr s \<Rightarrow> Inr (s @ t) | _ \<Rightarrow> Inl TypeError)"

definition cc_has_fuel_surcharge_waiver :: "pydict \<Rightarrow> error + bool" where
  "cc_has_fuel_surcharge_waiver raw_data =
     and_then (py_add_str (dict_get_or raw_data ''description'' (PStr [])) '' '') (\<lambda>a.
     and_then (py_join_space (dict_get_or raw_data ''features'' (PList []))) (\<lambda>b.
       let text = lower (a @ b)
       in Inr (str_in ''fuel surcharge'' text \<or> str_in ''fuel waiver'' text)))"

definition cc_has_lounge_access :: "pydict \<Rightarrow> error + bool" where
  "cc_has_lounge_access raw_data =
     and_then (py_add_str (dict_get_or raw_data ''description'' (PStr [])) '' '') (\<lambda>a.
     and_then (py_join_space (dict_get_or raw_data ''features'' (PList []))) (\<lambda>b.
       let text = lower (a @ b)
       in Inr (str_in ''lounge'' text \<or> str_in ''airport access'' text)))"

text \<open>The feature list is built from the items of the raw \<open>features\<close> value and from
  literals; when both joins above have succeeded every item is a string, so the last
  conversion cannot fail.\<close>

definition cc_process_product :: "runtime \<Rightarrow> pydict \<Rightarrow> error + CreditCardInfo" where
  "cc_process_product rt raw_data =
     and_then (py_strip (dict_get_or raw_data ''name'' (PStr []))) (\<lambda>nm.
     and_then (cc_extract_features raw_data) (\<lambda>fs.
     and_then (cc_extract_annual_fee raw_data) (\<lambda>fee.
     and_then (cc_extract_cashback_rate raw_data) (\<lambda>cashback.
     and_then (cc_extract_welcome_benefit raw_data) (\<lambda>wb.
     and_then (cc_has_fuel_surcharge_waiver raw_data) (\<lambda>fuel.
     and_then (cc_has_lounge_access raw_data) (\<lambda>lounge.
     and_then (strings_of fs) (\<lambda>feats.
       Inr \<lparr> id' = ''cc_'' @ show_int (str_hash rt nm),
             name = nm,
             description = dict_get_or raw_data ''description'' (PStr []),
             category = CREDIT_CARDS,
             features = feats,
             bank = dict_get_or raw_data ''bank''
                      (dict_get_or raw_data ''issuer'' (PStr ''Unknown Bank'')),
             annual_fee = fee,
             cashback_rate = cashback,
             reward_rate = None,
             welcome_benefit = wb,
             fuel_surcharge_waiver = fuel,
             lounge_access = lounge \<rparr>))))))))"

definition cc_reputable_banks :: "string list" where
  "cc_reputable_banks = [''sbi'', ''hdfc'', ''icici'', ''axis'', ''kotak'']"

definition cc_calculate_score :: "CreditCardInfo \<Rightarrow> pydict \<Rightarrow> error + real" where
  "cc_calculate_score p user_preferences =
     (let s0 = (0::real);
          s1 = (case cashback_rate p of
                  None \<Rightarrow> s0
                | Some r \<Rightarrow> if r \<noteq> 0 then s0 + min (r * 5) 30 else s0);
          s2 = (case annual_fee p of
                  Some fee \<Rightarrow>
                    if fee = 0 then s1 + 25
                    else if fee \<le> 500 then s1 + 20
                    else if fee \<le> 2000 then s1 + 10
                    else s1 + 5
                | None \<Rightarrow> s1 + 15);
          benefit_score =
            (if fuel_surcharge_waiver p then 5 else 0)
            + (if lounge_access p then 10 else 0)
            + (case welcome_benefit p of
                 None \<Rightarrow> 0
               | Some w \<Rightarrow> if w \<noteq> [] then 5 else 0);
          s3 = s2 + min benefit_score 20;
          feature_score = real (length (features p)) * 2;
          s4 = s3 + min feature_score 15
      in and_then (py_lower (bank p)) (\<lambda>b.
           let s5 = (if list_ex (\<lambda>k. str_in k b) cc_reputable_banks then s4 + 10
                     else s4 + 5)
           in Inr (min s5 100)))"

section \<open>Fixed deposit processor\<close>

text \<open>\<open>float(str(v).replace('%', '').strip())\<close> behind the test \<open>if not v\<close>, with
  \<open>ValueError\<close> caught. The text of an integer or of a float reads back as its value; the
  text of \<open>True\<close>, of a list and of a dictionary is no numeral.\<close>

definition percent_to_float :: "pyval \<Rightarrow> real option" where
  "percent_to_float v =
     (if \<not> truthy v then None
      else case v of
             PStr s \<Rightarrow>
               (case float_of_string (strip (filter (\<lambda>c. c \<noteq> CHR ''%'') s)) of
                  Inr r \<Rightarrow> Some r
                | Inl e \<Rightarrow> None)
           | PInt i \<Rightarrow> Some (real_of_int i)
           | PFloat r \<Rightarrow> Some r
           | _ \<Rightarrow> None)"

definition fd_parse_rate :: "pyval \<Rightarrow> real option" where
  "fd_parse_rate rate_str = percent_to_float rate_str"

definition fd_extract_min_interest_rate :: "pydict \<Rightarrow> real option" where
  "fd_extract_min_interest_rate raw_data =
     fd_parse_rate (dict_get raw_data ''roi_in_percentage_min_tenure'')"

definition fd_extract_max_interest_rate :: "pydict \<Rightarrow> real option" where
  "fd_extract_max_interest_rate raw_data =
     fd_parse_rate (dict_get raw_data ''roi_in_percentage_max_tenure'')"

definition fd_extract_senior_citizen_rate :: "pydict \<Rightarrow> real option" where
  "fd_extract_senior_citizen_rate raw_data =
     fd_parse_rate (dict_get raw_data ''roi_in_percentage_senior_citizen_max_tenure'')"

definition fd_extract_features :: "runtime \<Rightarrow> pydict \<Rightarrow> error + string list" where
  "fd_extract_features rt raw_data =
     (let max_rate = fd_extract_max_interest_rate raw_data;
          f1 = (case max_rate of
                  Some m \<Rightarrow>
                    if m \<noteq> 0 then [''Interest rate up to '' @ float_repr rt m @ ''%''] else []
                | None \<Rightarrow> []);
          senior_rate = fd_extract_senior_citizen_rate raw_data;
          f2 = (case (senior_rate, max_rate) of
                  (Some sr, Some m) \<Rightarrow>
                    if sr \<noteq> 0 \<and> m \<noteq> 0 \<and> sr > m
                    then [''Senior citizen rate: '' @ float_repr rt sr @ ''%'']
                    else []
                | _ \<Rightarrow> []);
          tenure_from = dict_get raw_data ''tenure_from_days''
      in if truthy tenure_from then
           and_then (py_int tenure_from) (\<lambda>days.
             let years = real_of_int days / 365
             in Inr (f1 @ f2 @
                  (if years \<ge> 1
                   then [''Minimum tenure: '' @ float_fmt1 rt years @ '' years'']
                   else [''Minimum tenure: '' @ show_int days @ '' days''])))
         else Inr (f1 @ f2))"

text \<open>\<open>int(v) if v else None\<close>.\<close>

definition int_if_truthy :: "pyval \<Rightarrow> error + int option" where
  "int_if_truthy v =
     (if truthy v then and_then (py_int v) (\<lambda>i. Inr (Some i)) else Inr None)"

definition fd_process_product :: "runtime \<Rightarrow> pydict \<Rightarrow> error + FixedDepositInfo" where
  "fd_process_product rt raw_data =
     (let bank_name_v = dict_get_or raw_data ''bank_name''
                          (dict_get_or raw_data ''bank'' (PStr ''Unknown Bank''));
          nm = py_str rt bank_name_v @ '' Fixed Deposit''
      in and_then (fd_extract_features rt raw_data) (\<lambda>feats.
         and_then (int_if_truthy (dict_get raw_data ''tenure_from_days'')) (\<lambda>tenure_from.
         and_then (int_if_truthy (dict_get raw_data ''tenure_to_days'')) (\<lambda>tenure_to.
           Inr \<lparr> id' = ''fd_'' @ show_int (str_hash rt nm),
                 name = nm,
                 description = dict_get_or raw_data ''about'' (PStr []),
                 category = FIXED_DEPOSITS,
                 features = feats,
                 bank_name = bank_name_v,
                 interest_rate_min = fd_extract_min_interest_rate raw_data,
                 interest_rate_max = fd_extract_max_interest_rate raw_data,
                 tenure_from_days = tenure_from,
                 tenure_to_days = tenure_to,
                 senior_citizen_rate = fd_extract_senior_citizen_rate raw_data \<rparr>))))"

definition fd_reputable_banks :: "string list" where
  "fd_reputable_banks = [''sbi'', ''hdfc'', ''icici'', ''axis'', ''kotak'', ''pnb'']"

definition fd_calculate_score :: "FixedDepositInfo \<Rightarrow> pydict \<Rightarrow> error + real" where
  "fd_calculate_score p user_preferences =
     (let s0 = (0::real);
          s1 = (case interest_rate_max p of
                  Some m \<Rightarrow> if m \<noteq> 0 then s0 + min (m * 8) 50 else s0
                | None \<Rightarrow> s0);
          s2 = (case (senior_citizen_rate p, interest_rate_max p) of
                  (Some sr, Some m) \<Rightarrow>
                    if sr \<noteq> 0 \<and> m \<noteq> 0 then (if sr > m then s1 + 20 else s1 + 10) else s1
                | _ \<Rightarrow> s1);
          s3 = (case (tenure_from_days p, tenure_to_days p) of
                  (Some tf, Some tt) \<Rightarrow>
                    if tf \<noteq> 0 \<and> tt \<noteq> 0
                    then (let tenure_range = tt - tf
                          in if tenure_range > 1000 then s2 + 20
                             else if tenure_range > 365 then s2 + 15
                             else s2 + 10)
                    else s2
                | _ \<Rightarrow> s2)
      in and_then (py_lower (bank_name p)) (\<lambda>b.
           let s4 = (if list_ex (\<lambda>k. str_in k b) fd_reputable_banks then s3 + 10
                     else s3 + 5)
           in Inr (min s4 100)))"

section \<open>Mutual fund processor\<close>

definition mf_extract_return_percentage :: "pyval \<Rightarrow> real option" where
  "mf_extract_return_percentage return_str = percent_to_float return_str"

definition mf_safe_float_conversion :: "pyval \<Rightarrow> real option" where
  "mf_safe_float_conversion v =
     (if v = PNone then None
      else case py_float v of Inr r \<Rightarrow> Some r | Inl e \<Rightarrow> None)"

definition mf_safe_int_conversion :: "pyval \<Rightarrow> int" where
  "mf_safe_int_conversion v =
     (if v = PNone then 0
      else case py_int v of Inr i \<Rightarrow> i | Inl e \<Rightarrow> 0)"

text \<open>One entry of the feature list: present when the raw value is true.\<close>

definition feature_if :: "runtime \<Rightarrow> pydict \<Rightarrow> string \<Rightarrow> string \<Rightarrow> string \<Rightarrow> string list" where
  "feature_if rt raw_data k lead trail =
     (if truthy (dict_get raw_data k) then [lead @ py_str rt (dict_get raw_data k) @ trail]
      else [])"

definition mf_extract_features :: "runtime \<Rightarrow> pydict \<Rightarrow> string list" where
  "mf_extract_features rt raw_data =
       feature_if rt raw_data ''returns_3y'' ''3Y Returns: '' []
     @ feature_if rt raw_data ''returns_5y'' ''5Y Returns: '' []
     @ feature_if rt raw_data ''rating'' ''Rating: '' ''/5 stars''
     @ feature_if rt raw_data ''risk_level'' ''Risk: '' []
     @ feature_if rt raw_data ''expense_ratio'' ''Expense Ratio: '' ''%''
     @ feature_if rt raw_data ''min_investment'' (''Min Investment: '' @ rupee) []
     @ feature_if rt raw_data ''fund_manager'' ''Fund Manager: '' []"

definition mf_process_product :: "runtime \<Rightarrow> pydict \<Rightarrow> error + MutualFundInfo" where
  "mf_process_product rt raw_data =
     and_then (py_strip (dict_get_or raw_data ''name'' (PStr []))) (\<lambda>nm.
       Inr \<lparr> id' = ''mf_'' @ show_int (str_hash rt nm),
             name = nm,
             description = dict_get_or raw_data ''description'' (PStr []),
             category = MUTUAL_FUNDS,
             features = mf_extract_features rt raw_data,
             amc = dict_get_or raw_data ''amc'' (PStr ''Unknown''),
             risk_level = dict_get_or raw_data ''risk_level'' (PStr ''Unknown''),
             rating = mf_safe_int_conversion (dict_get_or raw_data ''rating'' (PInt 0)),
             returns_1y = mf_extract_return_percentage (dict_get raw_data ''returns_1y''),
             returns_3y = mf_extract_return_percentage (dict_get raw_data ''returns_3y''),
             returns_5y = mf_extract_return_percentage (dict_get raw_data ''returns_5y''),
             nav = mf_safe_float_conversion (dict_get raw_data ''nav''),
             aum = mf_safe_float_conversion (dict_get raw_data ''aum''),
             expense_ratio = mf_safe_float_conversion (dict_get raw_data ''expense_ratio''),
             min_investment = mf_safe_float_conversion (dict_get raw_data ''min_investment''),
             fund_manager = dict_get raw_data ''fund_manager'',
             inception_date = dict_get raw_data ''inception_date'',
             holdings = (if truthy (dict_get raw_data ''holdings'')
                         then dict_get_or raw_data ''holdings'' (PList [])
                         else PList []),
             sector_allocation = (if truthy (dict_get raw_data ''sector_allocation'')
                                  then dict_get_or raw_data ''sector_allocation'' (PList [])
                                  else PList []) \<rparr>)"

definition mf_calculate_performance_score :: "MutualFundInfo \<Rightarrow> real" where
  "mf_calculate_performance_score p =
     (let s = (case returns_5y p of
                 Some r5 \<Rightarrow> 0 + min (r5 * 2) 50
               | None \<Rightarrow>
                   (case returns_3y p of
                      Some r3 \<Rightarrow> 0 + min (r3 * 1.5) 40
                    | None \<Rightarrow>
                        (case returns_1y p of
                           Some r1 \<Rightarrow> 0 + min r1 30
                         | None \<Rightarrow> 0)))
      in min s 50)"

definition mf_calculate_rating_score :: "int \<Rightarrow> real" where
  "mf_calculate_rating_score r = (if r \<le> 0 then 0 else (real_of_int r / 5) * 25)"

definition risk_mapping :: "(string \<times> int) list" where
  "risk_mapping =
     [(''low risk'', 1),
      (''low to moderate risk'', 2),
      (''moderate risk'', 3),
      (''moderately high risk'', 4),
      (''high risk'', 5),
      (''very high risk'', 6)]"

definition mf_calculate_risk_score :: "pyval \<Rightarrow> pydict \<Rightarrow> error + real" where
  "mf_calculate_risk_score risk_level_v user_preferences =
     (let user_risk_tolerance =
            dict_get_or user_preferences ''risk_tolerance'' (PStr ''moderate risk'')
      in and_then (py_lower risk_level_v) (\<lambda>rl.
           let product_risk = (case map_of risk_mapping rl of Some n \<Rightarrow> n | None \<Rightarrow> 3)
           in and_then (py_lower user_risk_tolerance) (\<lambda>ut.
                let user_risk = (case map_of risk_mapping ut of Some n \<Rightarrow> n | None \<Rightarrow> 3);
                    risk_diff = \<bar>product_risk - user_risk\<bar>
                in Inr (if risk_diff = 0 then 20
                        else if risk_diff = 1 then 15
                        else if risk_diff = 2 then 10
                        else 5))))"

definition mf_calculate_expense_score :: "real option \<Rightarrow> real" where
  "mf_calculate_expense_score er =
     (case er of
        None \<Rightarrow> 5
      | Some x \<Rightarrow>
          if x \<le> 0.5 then 10
          else if x \<le> 1.0 then 8
          else if x \<le> 1.5 then 6
          else if x \<le> 2.0 then 4
          else 2)"

text \<open>\<open>len(v)\<close>.\<close>

definition py_len :: "pyval \<Rightarrow> error + nat" where
  "py_len v =
     (case v of
        PList xs \<Rightarrow> Inr (length xs)
      | PStr s \<Rightarrow> Inr (length s)
      | PDict d \<Rightarrow> Inr (length d)
      | _ \<Rightarrow> Inl TypeError)"

definition mf_calculate_stability_score :: "MutualFundInfo \<Rightarrow> error + real" where
  "mf_calculate_stability_score p =
     (let s0 = (0::real);
          s1 = (case aum p of
                  None \<Rightarrow> s0
                | Some a \<Rightarrow>
                    if a \<ge> 10000 then s0 + 3
                    else if a \<ge> 5000 then s0 + 2
                    else if a \<ge> 1000 then s0 + 1
                    else s0);
          s2 = (if truthy (fund_manager p) then s1 + 1 else s1)
      in and_then (py_len (holdings p)) (\<lambda>n. Inr (if n > 50 then s2 + 1 else s2)))"

definition mf_calculate_score :: "MutualFundInfo \<Rightarrow> pydict \<Rightarrow> error + real" where
  "mf_calculate_score p user_preferences =
     (let performance_score = mf_calculate_performance_score p;
          s1 = 0 + performance_score * 0.4;
          rating_score = mf_calculate_rating_score (rating p);
          s2 = s1 + rating_score * 0.25
      in and_then (mf_calculate_risk_score (risk_level p) user_preferences) (\<lambda>risk_score.
           let s3 = s2 + risk_score * 0.2;
               expense_score = mf_calculate_expense_score (expense_ratio p);
               s4 = s3 + expense_score * 0.1
           in and_then (mf_calculate_stability_score p) (\<lambda>stability_score.
                let s5 = s4 + stability_score * 0.05
                in Inr (min s5 100))))"

section \<open>Rankers\<close>

text \<open>A loop that builds a list and stops at the first exception.\<close>

fun map_result :: "('a \<Rightarrow> error + 'b) \<Rightarrow> 'a list \<Rightarrow> error + 'b list" where
  "map_result f [] = Inr []"
| "map_result f (x # xs) =
     and_then (f x) (\<lambda>y. and_then (map_result f xs) (\<lambda>ys. Inr (y # ys)))"

text \<open>\<open>sorted(products, key=lambda x: x.score, reverse=True)\<close>: descending and stable.\<close>

definition sort_by_score_desc :: "ScoredProduct list \<Rightarrow> ScoredProduct list" where
  "sort_by_score_desc ps = sort_key (\<lambda>x. - score x) ps"

text \<open>The text a ranker searches: the name, a space and the features joined by spaces.\<close>

definition product_text :: "product \<Rightarrow> string" where
  "product_text p = lower (product_name p @ '' '' @ join '' '' (product_features p))"

definition feature_text :: "product \<Rightarrow> string" where
  "feature_text p = lower (join '' '' (product_features p))"

definition any_in :: "string list \<Rightarrow> string \<Rightarrow> bool" where
  "any_in terms t = list_ex (\<lambda>k. str_in k t) terms"

subsection \<open>Credit card ranker\<close>

definition cc_keyword_matches :: "(string \<times> string list) list" where
  "cc_keyword_matches =
     [(''cashback'', [''cashback'', ''cash back'', ''rewards'']),
      (''travel'', [''travel'', ''miles'', ''airline'', ''hotel'']),
      (''fuel'', [''fuel'', ''petrol'', ''gas'']),
      (''dining'', [''dining'', ''restaurant'', ''food'']),
      (''shopping'', [''shopping'', ''online'', ''ecommerce'']),
      (''premium'', [''premium'', ''luxury'', ''exclusive'']),
      (''no annual fee'', [''no annual fee'', ''free'', ''zero fee''])]"

definition cc_calculate_query_relevance :: "product \<Rightarrow> string \<Rightarrow> real" where
  "cc_calculate_query_relevance p query =
     (if query = [] then 0
      else
        let query_lower = lower query;
            r0 = (0::real);
            r1 = (if list_ex (\<lambda>word. str_in word (lower (product_name p)))
                       (split_ws query_lower)
                  then r0 + 0.3 else r0);
            ft = feature_text p;
            query_words = split_ws query_lower;
            r2 = fold (\<lambda>query_word acc.
                   fold (\<lambda>(cat, keywords) acc'.
                           if query_word \<in> set keywords \<and> str_in cat ft then acc' + 0.1
                           else acc')
                     cc_keyword_matches acc)
                   query_words r1
        in min r2 1.0)"

fun cc_category_loop :: "string \<Rightarrow> pyval list \<Rightarrow> real \<Rightarrow> error + real" where
  "cc_category_loop ft [] acc = Inr acc"
| "cc_category_loop ft (c # cs) acc =
     and_then (py_lower c) (\<lambda>cl.
       cc_category_loop ft cs (if str_in cl ft then acc + 0.1 else acc))"

definition cc_calculate_preference_alignment :: "product \<Rightarrow> pydict \<Rightarrow> error + real" where
  "cc_calculate_preference_alignment p preferences =
     (let a0 = (0::real);
          max_annual_fee = dict_get preferences ''max_annual_fee'';
          a1 = (if max_annual_fee \<noteq> PNone
                then (if str_in ''no annual fee'' (feature_text p) then a0 + 0.4
                      else if str_in ''annual fee'' (feature_text p) then a0 + 0.2
                      else a0)
                else a0);
          income_range = dict_get preferences ''income_range'';
          a2 = (if truthy income_range
                then (let product_name_lower = lower (product_name p)
                      in if income_range = PStr ''premium''
                            \<and> any_in [''premium'', ''privilege'', ''signature''] product_name_lower
                         then a1 + 0.3
                         else if income_range = PStr ''mid''
                            \<and> any_in [''select'', ''classic''] product_name_lower
                         then a1 + 0.3
                         else if income_range = PStr ''entry''
                            \<and> any_in [''student'', ''basic'', ''starter''] product_name_lower
                         then a1 + 0.3
                         else a1)
                else a1);
          preferred_categories = dict_get_or preferences ''spending_categories'' (PList [])
      in and_then (py_iter preferred_categories) (\<lambda>cats.
         and_then (cc_category_loop (feature_text p) cats a2) (\<lambda>a3. Inr (min a3 1.0))))"

definition cc_high_value_categories :: "(string \<times> real) list" where
  "cc_high_value_categories =
     [(''travel'', 0.3), (''dining'', 0.2), (''fuel'', 0.2), (''online shopping'', 0.25),
      (''groceries'', 0.15)]"

definition cc_calculate_category_optimization :: "product \<Rightarrow> pydict \<Rightarrow> real" where
  "cc_calculate_category_optimization p preferences =
     (let ft = feature_text p;
          optimization_score =
            fold (\<lambda>(cat, bonus) acc. if str_in cat ft then acc + bonus else acc)
              cc_high_value_categories 0
      in min optimization_score 1.0)"

definition cc_calculate_enhanced_score :: "ScoredProduct \<Rightarrow> string \<Rightarrow> pydict \<Rightarrow> error + real" where
  "cc_calculate_enhanced_score sp user_query user_preferences =
     (let base_score = score sp;
          query_boost = cc_calculate_query_relevance (product' sp) user_query
      in and_then (cc_calculate_preference_alignment (product' sp) user_preferences)
           (\<lambda>preference_boost.
              let category_boost =
                    cc_calculate_category_optimization (product' sp) user_preferences;
                  enhanced_score =
                    base_score + query_boost * 5 + preference_boost * 3 + category_boost * 2
              in Inr (min enhanced_score 100)))"

definition cc_generate_ranking_reasoning :: "ScoredProduct \<Rightarrow> real \<Rightarrow> string" where
  "cc_generate_ranking_reasoning sp enhanced_score =
     (let score_improvement = enhanced_score - score sp
      in reasoning sp @
         (if score_improvement > 3 then '' Highly relevant to your query and preferences.''
          else if score_improvement > 1 then '' Good match for your requirements.''
          else if score_improvement > 0 then '' Partially matches your preferences.''
          else []))"

definition cc_rank_products ::
    "ScoredProduct list \<Rightarrow> string \<Rightarrow> pydict \<Rightarrow> error + ScoredProduct list" where
  "cc_rank_products ps user_query user_preferences =
     (if ps = [] then Inr []
      else and_then
             (map_result (\<lambda>sp.
                and_then (cc_calculate_enhanced_score sp user_query user_preferences)
                  (\<lambda>enhanced_score.
                     Inr \<lparr> product' = product' sp, score = enhanced_score,
                           reasoning = cc_generate_ranking_reasoning sp enhanced_score \<rparr>))
                ps)
             (\<lambda>enhanced_products. Inr (sort_by_score_desc enhanced_products)))"

subsection \<open>Fixed deposit ranker\<close>

definition fd_tenure_keywords :: "(string \<times> string list) list" where
  "fd_tenure_keywords =
     [(''short_term'', [''7 days'', ''15 days'', ''30 days'', ''1 month'', ''3 months'',
                        ''6 months'']),
      (''medium_term'', [''1 year'', ''2 years'', ''3 years'', ''18 months'']),
      (''long_term'', [''4 years'', ''5 years'', ''7 years'', ''10 years''])]"

text \<open>\<open>key in d\<close> for a dictionary with string keys: a list or dictionary cannot be
  hashed, any other value that is not a string is no key.\<close>

definition key_lookup :: "(string \<times> 'a) list \<Rightarrow> pyval \<Rightarrow> error + 'a option" where
  "key_lookup d k =
     (case k of
        PStr s \<Rightarrow> Inr (map_of d s)
      | PList xs \<Rightarrow> Inl TypeError
      | PDict kvs \<Rightarrow> Inl TypeError
      | _ \<Rightarrow> Inr None)"

definition fd_calculate_tenure_alignment :: "product \<Rightarrow> pydict \<Rightarrow> error + real" where
  "fd_calculate_tenure_alignment p preferences =
     (let preferred_tenure = dict_get preferences ''investment_tenure''
      in if \<not> truthy preferred_tenure then Inr 0
         else
           let a0 = (0::real);
               pt = product_text p
           in and_then (key_lookup fd_tenure_keywords preferred_tenure) (\<lambda>found.
                let a1 = (case found of
                            Some preferred_keywords \<Rightarrow>
                              if any_in preferred_keywords pt then a0 + 0.5 else a0
                          | None \<Rightarrow> a0);
                    a2 = (if any_in [''flexible'', ''auto renewal'', ''premature withdrawal''] pt
                          then a1 + 0.3 else a1)
                in Inr (min a2 1.0)))"

text \<open>A value compared with a number: a number or a truth value.\<close>

definition py_number :: "pyval \<Rightarrow> error + real" where
  "py_number v =
     (case v of
        PInt i \<Rightarrow> Inr (real_of_int i)
      | PFloat r \<Rightarrow> Inr r
      | PBool b \<Rightarrow> Inr (if b then 1 else 0)
      | _ \<Rightarrow> Inl TypeError)"

definition fd_calculate_amount_alignment :: "product \<Rightarrow> pydict \<Rightarrow> error + real" where
  "fd_calculate_amount_alignment p preferences =
     (let investment_amount = dict_get preferences ''investment_amount''
      in if \<not> truthy investment_amount then Inr 0
         else
           let a0 = (0::real);
               ft = feature_text p
           in and_then (py_number investment_amount) (\<lambda>amount.
                let a1 = (if amount \<ge> 100000
                          then (if any_in [''high value'', ''premium'', ''bulk deposit''] ft
                                then a0 + 0.5 else a0)
                          else if amount \<ge> 25000
                          then (if any_in [''regular'', ''standard''] ft then a0 + 0.4 else a0)
                          else (if any_in [''minimum'', ''small'', ''low amount''] ft
                                then a0 + 0.4 else a0))
                in Inr (min a1 1.0)))"

definition fd_calculate_senior_citizen_boost :: "product \<Rightarrow> pydict \<Rightarrow> real" where
  "fd_calculate_senior_citizen_boost p preferences =
     (let is_senior_citizen = dict_get_or preferences ''is_senior_citizen'' (PBool False)
      in if \<not> truthy is_senior_citizen then 0
         else
           let b0 = (0::real);
               b1 = (if any_in [''senior citizen'', ''senior'', ''additional rate'',
                                ''extra interest'', ''higher rate for senior'', ''bonus rate'']
                          (product_text p)
                     then b0 + 0.3 else b0)
           in min b1 1.0)"

definition fd_keywords :: "(string \<times> string list) list" where
  "fd_keywords =
     [(''high interest'', [''high'', ''best'', ''maximum'', ''top'']),
      (''short term'', [''short'', ''quick'', ''immediate'']),
      (''long term'', [''long'', ''extended'', ''multi-year'']),
      (''flexible'', [''flexible'', ''premature'', ''withdrawal'']),
      (''safe'', [''safe'', ''secure'', ''guaranteed'']),
      (''senior citizen'', [''senior'', ''citizen'', ''elderly''])]"

definition no_spaces :: "string \<Rightarrow> string" where
  "no_spaces s = filter (\<lambda>c. c \<noteq> CHR '' '') s"

definition fd_calculate_query_relevance :: "product \<Rightarrow> string \<Rightarrow> real" where
  "fd_calculate_query_relevance p query =
     (if query = [] then 0
      else
        let query_lower = lower query;
            r0 = (0::real);
            pt = product_text p;
            r1 = fold (\<lambda>query_word acc.
                   if list_ex (\<lambda>(cat, keywords).
                        query_word \<in> set keywords \<and> str_in (no_spaces cat) (no_spaces pt))
                        fd_keywords
                   then acc + 0.2 else acc)
                   (split_ws query_lower) r0;
            r2 = (if list_ex (\<lambda>word. str_in word (lower (product_name p)))
                       (split_ws query_lower)
                  then r1 + 0.3 else r1)
        in min r2 1.0)"

definition fd_calculate_safety_boost :: "product \<Rightarrow> real" where
  "fd_calculate_safety_boost p =
     (let s0 = (0::real);
          pt = product_text p;
          s1 = (if any_in [''sbi'', ''state bank'', ''pnb'', ''punjab national'',
                           ''bank of baroda'', ''canara bank'', ''union bank'',
                           ''indian bank'', ''government''] pt
                then s0 + 0.4 else s0);
          s2 = (if any_in [''dicgc'', ''insured'', ''deposit insurance''] pt
                then s1 + 0.3 else s1);
          s3 = (if any_in [''aaa'', ''aa+'', ''stable rating''] pt then s2 + 0.3 else s2)
      in min s3 1.0)"

definition fd_calculate_enhanced_score :: "ScoredProduct \<Rightarrow> string \<Rightarrow> pydict \<Rightarrow> error + real" where
  "fd_calculate_enhanced_score sp user_query user_preferences =
     (let base_score = score sp
      in and_then (fd_calculate_tenure_alignment (product' sp) user_preferences)
           (\<lambda>tenure_boost.
         and_then (fd_calculate_amount_alignment (product' sp) user_preferences)
           (\<lambda>amount_boost.
              let senior_boost =
                    fd_calculate_senior_citizen_boost (product' sp) user_preferences;
                  query_boost = fd_calculate_query_relevance (product' sp) user_query;
                  safety_boost = fd_calculate_safety_boost (product' sp);
                  enhanced_score =
                    base_score + tenure_boost * 3 + amount_boost * 2 + senior_boost * 2
                    + query_boost * 2 + safety_boost * 1
              in Inr (min enhanced_score 100))))"

definition fd_generate_ranking_reasoning :: "ScoredProduct \<Rightarrow> real \<Rightarrow> string" where
  "fd_generate_ranking_reasoning sp enhanced_score =
     (let score_improvement = enhanced_score - score sp
      in reasoning sp @
         (if score_improvement > 2
          then '' Excellent match for your deposit requirements and risk profile.''
          else if score_improvement > 1
          then '' Good alignment with your investment preferences.''
          else if score_improvement > 0.5 then '' Suitable option for your deposit needs.''
          else []))"

definition fd_rank_products ::
    "ScoredProduct list \<Rightarrow> string \<Rightarrow> pydict \<Rightarrow> error + ScoredProduct list" where
  "fd_rank_products ps user_query user_preferences =
     (if ps = [] then Inr []
      else and_then
             (map_result (\<lambda>sp.
                and_then (fd_calculate_enhanced_score sp user_query user_preferences)
                  (\<lambda>enhanced_score.
                     Inr \<lparr> product' = product' sp, score = enhanced_score,
                           reasoning = fd_generate_ranking_reasoning sp enhanced_score \<rparr>))
                ps)
             (\<lambda>enhanced_products. Inr (sort_by_score_desc enhanced_products)))"

subsection \<open>Mutual fund ranker\<close>

text \<open>\<open>getattr(product, 'category', '').lower()\<close>: every product has the attribute,
  and it holds a member of the plain enumeration \<open>ProductCategory\<close>, which has no method
  \<open>lower\<close>.\<close>

definition enum_lower :: "ProductCategory \<Rightarrow> error + string" where
  "enum_lower c = Inl AttributeError"

definition goal_category_mapping :: "(string \<times> string list) list" where
  "goal_category_mapping =
     [(''wealth creation'', [''equity'', ''growth'', ''large cap'', ''mid cap'', ''small cap'']),
      (''retirement'', [''equity'', ''balanced'', ''hybrid'', ''retirement'']),
      (''tax saving'', [''elss'', ''tax'', ''saving'']),
      (''regular income'', [''debt'', ''income'', ''dividend'', ''monthly income'']),
      (''capital preservation'', [''debt'', ''liquid'', ''ultra short'', ''low duration'']),
      (''child education'', [''equity'', ''children'', ''education'']),
      (''emergency fund'', [''liquid'', ''ultra short'', ''overnight''])]"

definition mf_calculate_goal_alignment :: "product \<Rightarrow> pydict \<Rightarrow> error + real" where
  "mf_calculate_goal_alignment p preferences =
     and_then (py_lower (dict_get_or preferences ''investment_goal'' (PStr [])))
       (\<lambda>investment_goal.
          if investment_goal = [] then Inr 0
          else
            let a0 = (0::real);
                product_name_lower = lower (product_name p)
            in and_then (enum_lower (product_category p)) (\<lambda>product_category_lower.
                 let relevant_categories =
                       (case map_of goal_category_mapping investment_goal of
                          Some cs \<Rightarrow> cs
                        | None \<Rightarrow> []);
                     a1 = (if list_ex (\<lambda>cat. str_in cat product_name_lower
                                          \<or> str_in cat product_category_lower
                                          \<or> str_in cat (feature_text p))
                                relevant_categories
                           then a0 + 0.3 else a0)
                 in Inr (min a1 1.0)))"

definition mf_calculate_horizon_optimization :: "product \<Rightarrow> pydict \<Rightarrow> error + real" where
  "mf_calculate_horizon_optimization p preferences =
     and_then (py_lower (dict_get_or preferences ''investment_horizon'' (PStr [])))
       (\<lambda>investment_horizon.
          if investment_horizon = [] then Inr 0
          else
            let o0 = (0::real);
                pt = product_text p;
                o1 = (if investment_horizon \<in> set [''short term'', ''1-3 years'']
                      then (if any_in [''debt'', ''liquid'', ''short term'', ''conservative''] pt
                            then o0 + 0.5
                            else if any_in [''equity'', ''aggressive''] pt then o0 - 0.2
                            else o0)
                      else if investment_horizon \<in> set [''medium term'', ''3-7 years'']
                      then (if any_in [''balanced'', ''hybrid'', ''moderate''] pt then o0 + 0.5
                            else if any_in [''large cap'', ''diversified''] pt then o0 + 0.3
                            else o0)
                      else if investment_horizon \<in> set [''long term'', ''7+ years'']
                      then (if any_in [''equity'', ''growth'', ''small cap'', ''mid cap''] pt
                            then o0 + 0.5
                            else if any_in [''debt'', ''liquid''] pt then o0 - 0.1
                            else o0)
                      else o0)
            in Inr (max o1 0))"

definition mf_keywords :: "(string \<times> string list) list" where
  "mf_keywords =
     [(''sip'', [''sip'', ''systematic'']),
      (''tax saving'', [''elss'', ''tax'']),
      (''large cap'', [''large cap'', ''blue chip'']),
      (''small cap'', [''small cap'']),
      (''mid cap'', [''mid cap'']),
      (''debt'', [''debt'', ''bond'', ''fixed income'']),
      (''equity'', [''equity'', ''stock'']),
      (''balanced'', [''balanced'', ''hybrid'']),
      (''sectoral'', [''sectoral'', ''thematic'']),
      (''index'', [''index'', ''passive''])]"

definition mf_calculate_query_relevance :: "product \<Rightarrow> string \<Rightarrow> real" where
  "mf_calculate_query_relevance p query =
     (if query = [] then 0
      else
        let query_lower = lower query;
            r0 = (0::real);
            r1 = (if list_ex (\<lambda>word. str_in word (lower (product_name p)))
                       (split_ws query_lower)
                  then r0 + 0.3 else r0);
            pt = product_text p;
            r2 = fold (\<lambda>query_word acc.
                   if list_ex (\<lambda>(cat, keywords).
                        query_word \<in> set keywords \<and> any_in keywords pt) mf_keywords
                   then acc + 0.2 else acc)
                   (split_ws query_lower) r1
        in min r2 1.0)"

definition mf_calculate_sip_suitability :: "product \<Rightarrow> pydict \<Rightarrow> error + real" where
  "mf_calculate_sip_suitability p preferences =
     and_then (py_lower (dict_get_or preferences ''investment_type'' (PStr [])))
       (\<lambda>sip_preference.
          if \<not> str_in ''sip'' sip_preference then Inr 0
          else
            let s0 = (0::real);
                pt = product_text p;
                s1 = (if any_in [''equity'', ''growth'', ''diversified''] pt then s0 + 0.4
                      else s0);
                s2 = (if any_in [''large cap'', ''diversified'', ''bluechip''] pt then s1 + 0.3
                      else s1)
            in and_then (py_lower (risk_level_attr p)) (\<lambda>rl.
                 let s3 = (if str_in ''very high'' rl then s2 - 0.1 else s2)
                 in Inr (max s3 0)))"

definition mf_calculate_enhanced_score :: "ScoredProduct \<Rightarrow> string \<Rightarrow> pydict \<Rightarrow> error + real" where
  "mf_calculate_enhanced_score sp user_query user_preferences =
     (let base_score = score sp
      in and_then (mf_calculate_goal_alignment (product' sp) user_preferences) (\<lambda>goal_boost.
         and_then (mf_calculate_horizon_optimization (product' sp) user_preferences)
           (\<lambda>horizon_boost.
              let query_boost = mf_calculate_query_relevance (product' sp) user_query
              in and_then (mf_calculate_sip_suitability (product' sp) user_preferences)
                   (\<lambda>sip_boost.
                      let enhanced_score =
                            base_score + goal_boost * 4 + horizon_boost * 3 + query_boost * 2
                            + sip_boost * 1
                      in Inr (min enhanced_score 100)))))"

definition mf_generate_ranking_reasoning :: "ScoredProduct \<Rightarrow> real \<Rightarrow> string" where
  "mf_generate_ranking_reasoning sp enhanced_score =
     (let score_improvement = enhanced_score - score sp
      in reasoning sp @
         (if score_improvement > 3
          then '' Excellent alignment with your investment goals and risk profile.''
          else if score_improvement > 1.5 then '' Good match for your investment strategy.''
          else if score_improvement > 0.5
          then '' Suitable for your investment preferences.''
          else []))"

definition mf_rank_products ::
    "ScoredProduct list \<Rightarrow> string \<Rightarrow> pydict \<Rightarrow> error + ScoredProduct list" where
  "mf_rank_products ps user_query user_preferences =
     (if ps = [] then Inr []
      else and_then
             (map_result (\<lambda>sp.
                and_then (mf_calculate_enhanced_score sp user_query user_preferences)
                  (\<lambda>enhanced_score.
                     Inr \<lparr> product' = product' sp, score = enhanced_score,
                           reasoning = mf_generate_ranking_reasoning sp enhanced_score \<rparr>))
                ps)
             (\<lambda>enhanced_products. Inr (sort_by_score_desc enhanced_products)))"

section \<open>Product manager\<close>

datatype processor = CreditCardProcessor | FixedDepositProcessor | MutualFundProcessor

datatype ranker = CreditCardRanker | FixedDepositRanker | MutualFundRanker

text \<open>The methods of a processor and of a ranker, by the class of the object. A processor
  handed a product of another class reads an attribute the product does not have.\<close>

fun process_product :: "runtime \<Rightarrow> processor \<Rightarrow> pydict \<Rightarrow> error + product" where
  "process_product rt CreditCardProcessor raw_data =
     and_then (cc_process_product rt raw_data) (\<lambda>c. Inr (CreditCard c))"
| "process_product rt FixedDepositProcessor raw_data =
     and_then (fd_process_product rt raw_data) (\<lambda>f. Inr (FixedDeposit f))"
| "process_product rt MutualFundProcessor raw_data =
     and_then (mf_process_product rt raw_data) (\<lambda>m. Inr (MutualFund m))"

fun calculate_score :: "processor \<Rightarrow> product \<Rightarrow> pydict \<Rightarrow> error + real" where
  "calculate_score CreditCardProcessor (CreditCard c) prefs = cc_calculate_score c prefs"
| "calculate_score FixedDepositProcessor (FixedDeposit f) prefs = fd_calculate_score f prefs"
| "calculate_score MutualFundProcessor (MutualFund m) prefs = mf_calculate_score m prefs"
| "calculate_score pr p prefs = Inl AttributeError"

fun rank_products ::
    "ranker \<Rightarrow> ScoredProduct list \<Rightarrow> string \<Rightarrow> pydict \<Rightarrow> error + ScoredProduct list" where
  "rank_products CreditCardRanker ps q prefs = cc_rank_products ps q prefs"
| "rank_products FixedDepositRanker ps q prefs = fd_rank_products ps q prefs"
| "rank_products MutualFundRanker ps q prefs = mf_rank_products ps q prefs"

text \<open>A data loader is outside the pipeline: given the source filter (\<open>None\<close> when the
  preferences name none) it returns the raw records or raises.\<close>

type_synonym loader = "pyval \<Rightarrow> error + pyval list"

record manager =
  processors :: "ProductCategory \<rightharpoonup> processor"
  data_loaders :: "ProductCategory \<rightharpoonup> loader"
  rankers :: "ProductCategory \<rightharpoonup> ranker"

text \<open>\<open>__init__\<close>: the three dictionaries, keyed by the three implemented categories.\<close>

definition manager_init :: "loader \<Rightarrow> loader \<Rightarrow> loader \<Rightarrow> manager" where
  "manager_init credit_card_loader fixed_deposit_loader mutual_fund_loader =
     \<lparr> processors = [CREDIT_CARDS \<mapsto> CreditCardProcessor,
                      FIXED_DEPOSITS \<mapsto> FixedDepositProcessor,
                      MUTUAL_FUNDS \<mapsto> MutualFundProcessor],
       data_loaders = [CREDIT_CARDS \<mapsto> credit_card_loader,
                        FIXED_DEPOSITS \<mapsto> fixed_deposit_loader,
                        MUTUAL_FUNDS \<mapsto> mutual_fund_loader],
       rankers = [CREDIT_CARDS \<mapsto> CreditCardRanker,
                   FIXED_DEPOSITS \<mapsto> FixedDepositRanker,
                   MUTUAL_FUNDS \<mapsto> MutualFundRanker] \<rparr>"

text \<open>\<open>d[k]\<close>.\<close>

definition subscript :: "('k \<rightharpoonup> 'v) \<Rightarrow> 'k \<Rightarrow> error + 'v" where
  "subscript d k = (case d k of None \<Rightarrow> Inl KeyError | Some v \<Rightarrow> Inr v)"

text \<open>The loop over the raw records of a category. A record that fails in processing or
  scoring is left out. A raw record that is no dictionary fails in the handler as well
  (\<open>raw_product.get\<close>), and that exception leaves the loop.\<close>

fun score_records ::
    "runtime \<Rightarrow> processor \<Rightarrow> pydict \<Rightarrow> pyval list \<Rightarrow> error + ScoredProduct list" where
  "score_records rt pr prefs [] = Inr []"
| "score_records rt pr prefs (PDict raw_product # rest) =
     (case and_then (process_product rt pr raw_product) (\<lambda>processed_product.
             and_then (calculate_score pr processed_product prefs) (\<lambda>sc.
               Inr \<lparr> product' = processed_product, score = sc,
                     reasoning = ''Base score: '' @ float_fmt1 rt sc \<rparr>)) of
        Inr scored_product \<Rightarrow>
          and_then (score_records rt pr prefs rest) (\<lambda>sps. Inr (scored_product # sps))
      | Inl e \<Rightarrow> score_records rt pr prefs rest)"
| "score_records rt pr prefs (raw_product # rest) = Inl AttributeError"

definition process_category ::
    "runtime \<Rightarrow> manager \<Rightarrow> ProductCategory \<Rightarrow> string \<Rightarrow> pydict \<Rightarrow> error + ScoredProduct list" where
  "process_category rt m cat user_query user_preferences =
     and_then (subscript (data_loaders m) cat) (\<lambda>loader.
     and_then (subscript (processors m) cat) (\<lambda>processor.
     and_then (subscript (rankers m) cat) (\<lambda>ranker.
       let source_filter = dict_get user_preferences (category_value cat @ ''_source'')
       in and_then (loader source_filter) (\<lambda>raw_data.
          and_then (score_records rt processor user_preferences raw_data)
            (\<lambda>scored_products.
               rank_products ranker scored_products user_query user_preferences)))))"

definition rank_across_categories ::
    "ScoredProduct list \<Rightarrow> string \<Rightarrow> pydict \<Rightarrow> ScoredProduct list" where
  "rank_across_categories ps user_query user_preferences = sort_by_score_desc ps"

text \<open>\<open>xs[:n]\<close>: a negative bound counts from the end.\<close>

definition slice_to :: "int \<Rightarrow> 'a list \<Rightarrow> 'a list" where
  "slice_to n xs =
     (if 0 \<le> n then take (nat n) xs else take (nat (int (length xs) + n)) xs)"

definition generate_recommendation_reasoning ::
    "runtime \<Rightarrow> string \<Rightarrow> ScoredProduct list \<Rightarrow> nat \<Rightarrow> string" where
  "generate_recommendation_reasoning rt user_query ps n_found =
     (case ps of
        [] \<Rightarrow>
          ''No products found matching '' @ [CHR 0x27] @ user_query @ [CHR 0x27]
          @ ''. Try different search terms.''
      | best # others \<Rightarrow>
          let top_score = score best;
              categories =
                set_order rt
                  (remdups (map (\<lambda>p. category_value (product_category (product' p))) ps))
          in ''Found '' @ show_int (int n_found) @ '' products matching '' @ [CHR 0x27]
             @ user_query @ [CHR 0x27] @ ''. ''
             @ ''Showing top '' @ show_int (int (length ps)) @ '' recommendations ''
             @ ''from '' @ show_int (int (length categories)) @ '' categories: ''
             @ join '', '' categories @ ''. ''
             @ ''Top recommendation score: '' @ float_fmt1 rt top_score @ ''/100.'')"

record ProductRecommendation =
  products :: "ScoredProduct list"
  total_found :: int
  query_processed :: string
  recommendations_reasoning :: string

text \<open>\<open>recommend_products\<close>. An exception of a category is caught and the category
  contributes nothing; the function itself raises nothing.\<close>

definition recommend_products ::
    "runtime \<Rightarrow> manager \<Rightarrow> string \<Rightarrow> ProductCategory list option \<Rightarrow> pydict option \<Rightarrow> int
       \<Rightarrow> ProductRecommendation" where
  "recommend_products rt m user_query product_categories user_preferences max_results =
     (let cats = (case product_categories of None \<Rightarrow> all_categories | Some cs \<Rightarrow> cs);
          prefs = (case user_preferences of None \<Rightarrow> [] | Some d \<Rightarrow> d);
          all_products =
            fold (\<lambda>cat acc.
                    case process_category rt m cat user_query prefs of
                      Inr category_products \<Rightarrow> acc @ category_products
                    | Inl e \<Rightarrow> acc)
              cats [];
          ranked_products = rank_across_categories all_products user_query prefs;
          final_products = slice_to max_results ranked_products;
          reasoning_text =
            generate_recommendation_reasoning rt user_query final_products
              (length all_products)
      in \<lparr> products = final_products,
            total_found = int (length all_products),
            query_processed = user_query,
            recommendations_reasoning = reasoning_text \<rparr>)"

section \<open>The risk ordinal of the specification\<close>


section \<open>Concrete inputs\<close>

text \<open>One interpreter: floats are printed in positional decimal notation (which is what
  Python prints for the short decimals used below), the hash of a string is its length,
  and a set is iterated in the order of insertion.\<close>

fun fraction_digits :: "nat \<Rightarrow> real \<Rightarrow> string" where
  "fraction_digits 0 x = []"
| "fraction_digits (Suc n) x =
     (let d = nat \<lfloor>x * 10\<rfloor>
      in (''0123456789'' ! d) # fraction_digits n (x * 10 - real d))"

definition show_float :: "real \<Rightarrow> string" where
  "show_float r =
     (let a = \<bar>r\<bar>;
          ip = nat \<lfloor>a\<rfloor>;
          fd = rev (dropWhile (\<lambda>c. c = CHR ''0'') (rev (fraction_digits 16 (a - real ip))))
      in (if r < 0 then ''-'' else []) @ digits_of ip @ ''.''
         @ (if fd = [] then ''0'' else fd))"

definition show_fixed1 :: "real \<Rightarrow> string" where
  "show_fixed1 r =
     (let t = nat \<lfloor>\<bar>r\<bar> * 10 + 1 / 2\<rfloor>
      in (if r < 0 then ''-'' else []) @ digits_of (t div 10) @ ''.''
         @ digits_of (t mod 10))"

definition sample_runtime :: runtime where
  "sample_runtime =
     \<lparr> str_hash = (\<lambda>s. int (length s)),
       float_repr = show_float,
       float_fmt1 = show_fixed1,
       container_repr = (\<lambda>v. ''[...]''),
       set_order = (\<lambda>xs. xs) \<rparr>"

text \<open>The credit card of the specification's scenario.\<close>

definition example_card :: pydict where
  "example_card =
     [(''name'', PStr ''Example Card''),
      (''bank'', PStr ''HDFC''),
      (''annual_fee'', PInt 0),
      (''description'', PStr ''Earn 5% cashback on fuel, lounge access, welcome bonus'')]"

text \<open>A fund that lost half of its value over five years.\<close>

definition falling_fund :: pydict where
  "falling_fund =
     [(''name'', PStr ''Falling Star Equity Fund''),
      (''amc'', PStr ''Star AMC''),
      (''risk_level'', PStr ''Very High Risk''),
      (''returns_5y'', PStr ''-50%'')]"

text \<open>A fund with ordinary figures, and preferences that name an investment goal (the
  caller sets the goal to one of four such texts).\<close>

definition bluechip_fund :: pydict where
  "bluechip_fund =
     [(''name'', PStr ''Bluechip Equity Fund''),
      (''amc'', PStr ''Star AMC''),
      (''risk_level'', PStr ''Moderate Risk''),
      (''rating'', PInt 4),
      (''returns_5y'', PStr ''12.5%''),
      (''expense_ratio'', PFloat 0.75)]"

definition retirement_preferences :: pydict where
  "retirement_preferences = [(''investment_goal'', PStr ''retirement'')]"

text \<open>Fixed deposits: the one of the specification's scenario, one whose tenure is
  given in words, and one whose best rate is zero.\<close>

definition sbi_deposit :: pydict where
  "sbi_deposit =
     [(''bank_name'', PStr ''SBI''),
      (''roi_in_percentage_max_tenure'', PStr ''7.5''),
      (''roi_in_percentage_senior_citizen_max_tenure'', PStr ''8.1''),
      (''tenure_from_days'', PInt 365),
      (''tenure_to_days'', PInt 1825)]"

definition worded_tenure_deposit :: pydict where
  "worded_tenure_deposit =
     [(''bank_name'', PStr ''SBI''),
      (''roi_in_percentage_max_tenure'', PStr ''7.5''),
      (''tenure_from_days'', PStr ''two years'')]"

definition zero_rate_deposit :: FixedDepositInfo where
  "zero_rate_deposit =
     \<lparr> id' = ''fd_17'',
       name = ''SBI Fixed Deposit'',
       description = PStr [],
       category = FIXED_DEPOSITS,
       features = [''Minimum tenure: 1.0 years''],
       bank_name = PStr ''SBI'',
       interest_rate_min = None,
       interest_rate_max = Some 0,
       tenure_from_days = Some 365,
       tenure_to_days = Some 1825,
       senior_citizen_rate = Some 0 \<rparr>"

text \<open>A loader for each implemented category, and the manager built on them.\<close>

definition sample_cards :: loader where
  "sample_cards source_filter = Inr [PDict example_card]"

definition sample_deposits :: loader where
  "sample_deposits source_filter = Inr [PDict worded_tenure_deposit, PDict sbi_deposit]"

definition sample_funds :: loader where
  "sample_funds source_filter = Inr [PDict falling_fund, PDict bluechip_fund]"

definition sample_manager :: manager where
  "sample_manager = manager_init sample_cards sample_deposits sample_funds"

definition zero_rate_scored :: ScoredProduct where
  "zero_rate_scored =
     \<lparr> product' = FixedDeposit zero_rate_deposit, score = 30,
       reasoning = ''Base score: 30.0'' \<rparr>"


section \<open>Basic facts\<close>

lemma and_then_simps [simp]:
  "and_then (Inr x) f = f x"
  "and_then (Inl e) f = Inl e"
  by (simp_all add: and_then_def)

lemma and_then_eq_InrD:
  "and_then m f = Inr y \<Longrightarrow> \<exists>x. m = Inr x \<and> f x = Inr y"
  by (cases m) simp_all

lemma py_lower_PStr [simp]: "py_lower (PStr s) = Inr (lower s)"
  by (simp add: py_lower_def)

lemma fold_ge_start:
  fixes a :: real
  assumes "\<And>x b. b \<le> f x b"
  shows "a \<le> fold f xs a"
proof (induction xs arbitrary: a)
  case Nil
  show ?case by simp
next
  case (Cons x xs)
  have "a \<le> f x a" by (rule assms)
  also have "f x a \<le> fold f xs (f x a)" by (rule Cons.IH)
  finally show ?case by simp
qed

lemma min_nonneg: "0 \<le> (x::real) \<Longrightarrow> 0 \<le> c \<Longrightarrow> 0 \<le> min x c"
  by simp

lemma map_result_Inr:
  "map_result f xs = Inr ys \<Longrightarrow> list_all2 (\<lambda>x y. f x = Inr y) xs ys"
  by (induction xs arbitrary: ys) (auto dest!: and_then_eq_InrD)

lemma map_result_total:
  assumes "\<And>x. \<exists>y. f x = Inr y"
  shows "\<exists>ys. map_result f xs = Inr ys"
proof (induction xs)
  case Nil
  show ?case by simp
next
  case (Cons x xs)
  from assms obtain y where "f x = Inr y" by blast
  moreover from Cons.IH obtain ys where "map_result f xs = Inr ys" by blast
  ultimately show ?case by simp
qed

lemma length_sort_by_score_desc [simp]: "length (sort_by_score_desc ps) = length ps"
  by (simp add: sort_by_score_desc_def)

lemma set_sort_by_score_desc [simp]: "set (sort_by_score_desc ps) = set ps"
  by (simp add: sort_by_score_desc_def)

lemma sort_by_score_desc_Nil [simp]: "sort_by_score_desc [] = []"
  by (simp add: sort_by_score_desc_def)

lemma sorted_sort_by_score_desc:
  "sorted_wrt (\<lambda>a b. score b \<le> score a) (sort_by_score_desc ps)"
proof -
  have "sorted (map (\<lambda>x. - score x) (sort_by_score_desc ps))"
    by (simp add: sort_by_score_desc_def)
  then show ?thesis
    by (simp add: sorted_wrt_map)
qed

lemma length_slice_to:
  "length (slice_to n xs) = (if 0 \<le> n then min (nat n) (length xs)
                              else nat (int (length xs) + n))"
  by (auto simp: slice_to_def)


lemma strings_of_Inr_iff:
  "(\<exists>ss. strings_of vs = Inr ss) \<longleftrightarrow> (\<forall>v\<in>set vs. \<exists>s. v = PStr s)"
proof (induction vs)
  case Nil
  show ?case by simp
next
  case (Cons v vs)
  show ?case
  proof (cases v)
    case (PStr s)
    with Cons show ?thesis
      by (cases "strings_of vs") auto
  qed (simp_all)
qed

section \<open>Processor scores\<close>

subsection \<open>The interval from 0 to 100\<close>

text \<open>
  The final \<open>min\<close> keeps every score a processor returns at or below 100. This is a
  fact about products whose numeric fields are numbers: a rate that the code reads from
  the text \<open>nan\<close> makes the score of the code a NaN, which \<open>min(score, 100.0)\<close> returns
  unchanged and which is not at most 100, and no such product exists here.
\<close>

lemma cc_calculate_score_at_most_100:
  "cc_calculate_score p prefs = Inr s \<Longrightarrow> s \<le> 100"
  unfolding cc_calculate_score_def Let_def
  by (elim and_then_eq_InrD [elim_format] exE conjE) auto

lemma fd_calculate_score_at_most_100:
  "fd_calculate_score p prefs = Inr s \<Longrightarrow> s \<le> 100"
  unfolding fd_calculate_score_def Let_def
  by (elim and_then_eq_InrD [elim_format] exE conjE) auto

lemma mf_calculate_score_at_most_100:
  "mf_calculate_score p prefs = Inr s \<Longrightarrow> s \<le> 100"
  unfolding mf_calculate_score_def Let_def
  by (elim and_then_eq_InrD [elim_format] exE conjE) auto

lemma calculate_score_at_most_100:
  "calculate_score pr p prefs = Inr s \<Longrightarrow> s \<le> 100"
  by (cases pr; cases p)
     (auto dest: cc_calculate_score_at_most_100 fd_calculate_score_at_most_100
        mf_calculate_score_at_most_100)

text \<open>
  Claim C1: every score a processor computes and every score a ranker emits lies
  between 0 and 100. The code breaks the lower bound: the performance component of a
  mutual fund is \<open>min(returns * 2, 50)\<close>, which is negative for a fund with negative
  returns, and nothing clamps the total from below. The fund \<open>falling_fund\<close> (five-year
  return of -50%) is scored -38.5 by \<open>calculate_score\<close>, and the mutual fund ranker emits
  it with that score.
\<close>

theorem mutual_fund_score_below_zero:
  "and_then (mf_process_product sample_runtime falling_fund) (\<lambda>p. mf_calculate_score p [])
     = Inr (- 38.5)
   \<and> and_then (process_category sample_runtime sample_manager MUTUAL_FUNDS [] [])
         (\<lambda>ranked. Inr (map score ranked)) = Inr [19.8, - 38.5]"
  by code_simp

subsection \<open>Fixed deposits and the senior citizen rate\<close>

text \<open>
  Claim C6, as stated: with \<open>interest_rate_max\<close> present, the score rises strictly when
  \<open>senior_citizen_rate\<close> moves from a value at or below \<open>interest_rate_max\<close> to a value
  above it. It does not when \<open>interest_rate_max\<close> is 0.0: the test
  \<open>senior_citizen_rate and interest_rate_max\<close> takes a rate of zero for an absent one, so
  the senior branch adds nothing on either side. The deposit \<open>zero_rate_deposit\<close> scores
  30 with a senior rate of 0 and with a senior rate of 7.5.
\<close>

theorem zero_rate_senior_no_rise:
  "fd_calculate_score (zero_rate_deposit\<lparr>senior_citizen_rate := Some 0\<rparr>) [] = Inr 30
   \<and> fd_calculate_score (zero_rate_deposit\<lparr>senior_citizen_rate := Some 7.5\<rparr>) [] = Inr 30"
  by code_simp

text \<open>The processor builds \<open>zero_rate_deposit\<close> from a raw record whose rates read "0%".\<close>

lemma zero_rate_deposit_processed:
  "fd_process_product sample_runtime
     [(''bank_name'', PStr ''SBI''), (''roi_in_percentage_max_tenure'', PStr ''0%''),
      (''roi_in_percentage_senior_citizen_max_tenure'', PStr ''0%''),
      (''tenure_from_days'', PInt 365), (''tenure_to_days'', PInt 1825)]
   = Inr zero_rate_deposit"
  by code_simp

text \<open>
  Claim C6, amended: for a fixed deposit whose \<open>interest_rate_max\<close> is present and
  greater than zero (and whose bank name is text, so that a score exists), the score
  rises strictly when \<open>senior_citizen_rate\<close> moves from a value at or below
  \<open>interest_rate_max\<close> to a value above it; every other attribute and the preferences
  are fixed. With a positive rate the rate component lies between 0 and 50 and every
  partial sum between 0 and 100, so the 10 points between the two senior branches are
  not lost to the rounding of a float, as they are for a rate near \<open>-1e16\<close>.
\<close>

theorem fd_score_rises_with_senior_rate:
  assumes "interest_rate_max p = Some m" and "0 < m" and "lo \<le> m" and "m < hi"
    and "bank_name p = PStr b"
  shows "\<exists>x y. fd_calculate_score (p\<lparr>senior_citizen_rate := Some lo\<rparr>) prefs = Inr x
             \<and> fd_calculate_score (p\<lparr>senior_citizen_rate := Some hi\<rparr>) prefs = Inr y
             \<and> x < y"
  using assms
  by (auto simp: fd_calculate_score_def Let_def min_def split: option.splits)

lemma sbi_scores:
  "fd_calculate_score
      (zero_rate_deposit\<lparr>interest_rate_max := Some 7.5, senior_citizen_rate := Some 7.5\<rparr>) []
     = Inr 90
   \<and> fd_calculate_score
      (zero_rate_deposit\<lparr>interest_rate_max := Some 7.5, senior_citizen_rate := Some 8.1\<rparr>) []
     = Inr 100"
  by code_simp

text \<open>
  Witness for claim C6 (amended): with a best rate of 7.5, the senior rate 7.5 gives 90
  and the senior rate 8.1 gives 100.
\<close>

theorem fd_score_rises_with_senior_rate_witness:
  "fd_calculate_score
      (zero_rate_deposit\<lparr>interest_rate_max := Some 7.5, senior_citizen_rate := Some 7.5\<rparr>) []
     = Inr 90
   \<and> fd_calculate_score
      (zero_rate_deposit\<lparr>interest_rate_max := Some 7.5, senior_citizen_rate := Some 8.1\<rparr>) []
     = Inr 100
   \<and> (0::real) < 7.5 \<and> (90::real) < 100"
proof -
  have "interest_rate_max (zero_rate_deposit\<lparr>interest_rate_max := Some 7.5\<rparr>) = Some 7.5"
    and "bank_name (zero_rate_deposit\<lparr>interest_rate_max := Some 7.5\<rparr>) = PStr ''SBI''"
    by (simp_all add: zero_rate_deposit_def)
  from fd_score_rises_with_senior_rate [OF this(1) _ _ _ this(2), of "7.5" "8.1" "[]"]
       sbi_scores
  show ?thesis by simp
qed

subsection \<open>Mutual funds and the risk alignment\<close>



section \<open>Fields that cannot be parsed\<close>

text \<open>A rate that cannot be parsed is absent by the type of \<open>fd_parse_rate\<close>. The one
  way for \<open>process_product\<close> of a fixed deposit to raise is the conversion of a tenure.\<close>

lemma fd_process_product_raises_only_on_tenure:
  assumes "fd_process_product rt raw = Inl e"
  shows "(truthy (dict_get raw ''tenure_from_days'')
            \<and> py_int (dict_get raw ''tenure_from_days'') = Inl e)
         \<or> (truthy (dict_get raw ''tenure_to_days'')
            \<and> py_int (dict_get raw ''tenure_to_days'') = Inl e)"
proof (cases "truthy (dict_get raw ''tenure_from_days'')")
  case False
  with assms show ?thesis
    unfolding fd_process_product_def fd_extract_features_def int_if_truthy_def Let_def
    by (cases "py_int (dict_get raw ''tenure_to_days'')") (auto split: if_splits)
next
  case True
  show ?thesis
  proof (cases "py_int (dict_get raw ''tenure_from_days'')")
    case (Inl e')
    with assms True show ?thesis
      unfolding fd_process_product_def fd_extract_features_def int_if_truthy_def Let_def
      by simp
  next
    case (Inr i)
    with assms True show ?thesis
      unfolding fd_process_product_def fd_extract_features_def int_if_truthy_def Let_def
      by (cases "py_int (dict_get raw ''tenure_to_days'')") (auto split: if_splits)
  qed
qed

text \<open>
  Claim C4: a missing or unparsable field (a rate or a tenure that is no number) never
  makes \<open>process_product\<close> raise. Rates are parsed by \<open>_parse_rate\<close>, which catches the
  error; the tenure is converted by a bare \<open>int(...)\<close>, so a fixed deposit whose
  \<open>tenure_from_days\<close> is the text "two years" makes \<open>process_product\<close> raise
  \<open>ValueError\<close>.
\<close>

theorem fixed_deposit_worded_tenure_raises:
  "fd_process_product sample_runtime worded_tenure_deposit = Inl ValueError"
  by code_simp

section \<open>Credit cards\<close>

text \<open>When the two joins of \<open>process_product\<close> have succeeded, every extracted feature
  is a string.\<close>

lemma literal_features_are_strings:
  assumes "\<forall>v\<in>set xs. \<exists>s. v = PStr s"
  shows "\<forall>v\<in>set (take n (xs @ (if a then [PStr x1] else []) @ (if b then [PStr x2] else [])
            @ (if c then [PStr x3] else []) @ (if d then [PStr x4] else []))). \<exists>s. v = PStr s"
  using assms by (auto dest!: in_set_takeD split: if_splits)

lemma extracted_features_shape:
  assumes "and_then E (\<lambda>explicit.
             if T then and_then P (\<lambda>d. Inr (take 10 (explicit
                   @ (if a d then [PStr (x1 d)] else []) @ (if b d then [PStr x2] else [])
                   @ (if c d then [PStr x3] else []) @ (if e d then [PStr x4] else []))))
             else Inr (take 10 explicit)) = Inr fs"
    and "\<And>ex. E = Inr ex \<Longrightarrow> \<forall>v\<in>set ex. \<exists>s. v = PStr s"
  shows "\<forall>v\<in>set fs. \<exists>s. v = PStr s"
proof -
  from assms(1) obtain ex where ex: "E = Inr ex"
    and r: "(if T then and_then P (\<lambda>d. Inr (take 10 (ex
                   @ (if a d then [PStr (x1 d)] else []) @ (if b d then [PStr x2] else [])
                   @ (if c d then [PStr x3] else []) @ (if e d then [PStr x4] else []))))
             else Inr (take 10 ex)) = Inr fs"
    by (cases E) simp_all
  note s = assms(2) [OF ex]
  show ?thesis
  proof (cases T)
    case True
    with r obtain d where "fs = take 10 (ex
                   @ (if a d then [PStr (x1 d)] else []) @ (if b d then [PStr x2] else [])
                   @ (if c d then [PStr x3] else []) @ (if e d then [PStr x4] else []))"
      by (cases P) auto
    with literal_features_are_strings [OF s] show ?thesis by simp
  next
    case False
    with r have "fs = take 10 ex" by simp
    with s show ?thesis by (auto dest!: in_set_takeD)
  qed
qed

lemma cc_features_are_strings:
  assumes f: "cc_extract_features raw = Inr fs"
    and j: "py_join_space (dict_get_or raw ''features'' (PList [])) = Inr b"
  shows "\<exists>ss. strings_of fs = Inr ss"
proof -
  from j obtain items where
    i: "py_iter (dict_get_or raw ''features'' (PList [])) = Inr items"
    and "\<exists>ss. strings_of items = Inr ss"
    by (auto simp: py_join_space_def dest!: and_then_eq_InrD)
  then have items: "\<forall>v\<in>set items. \<exists>s. v = PStr s"
    by (simp add: strings_of_Inr_iff)
  have "\<forall>v\<in>set fs. \<exists>s. v = PStr s"
  proof (rule extracted_features_shape [OF f [unfolded cc_extract_features_def Let_def]])
    fix ex
    assume "(if map_of raw ''features'' \<noteq> None \<and> truthy (dict_get raw ''features'')
             then py_iter (dict_get raw ''features'') else Inr []) = Inr ex"
    with i have "ex = items \<or> ex = []"
      by (auto simp: dict_get_def dict_get_or_def split: if_splits option.splits)
    with items show "\<forall>v\<in>set ex. \<exists>s. v = PStr s" by auto
  qed
  then show ?thesis by (simp add: strings_of_Inr_iff)
qed

subsection \<open>The example card\<close>

lemma example_card_features:
  "cc_extract_features example_card
     = Inr [PStr ''Up to 5% cashback'', PStr ''Airport lounge access'',
            PStr ''Welcome benefits'']"
  by code_simp

lemma example_card_annual_fee: "cc_extract_annual_fee example_card = Inr (Some 0)"
  by code_simp

lemma example_card_cashback_rate: "cc_extract_cashback_rate example_card = Inr (Some 5)"
  by code_simp

lemma example_card_welcome_benefit:
  "cc_extract_welcome_benefit example_card
     = Inr (Some ''Earn 5% cashback on fuel, lounge access, welcome bonus'')"
  by code_simp

lemma example_card_fuel: "cc_has_fuel_surcharge_waiver example_card = Inr False"
  by code_simp

lemma example_card_lounge: "cc_has_lounge_access example_card = Inr True"
  by code_simp

lemma example_card_name:
  "py_strip (dict_get_or example_card ''name'' (PStr [])) = Inr ''Example Card''"
  by code_simp

lemma example_card_bank:
  "dict_get_or example_card ''bank'' (dict_get_or example_card ''issuer'' (PStr ''Unknown Bank''))
     = PStr ''HDFC''"
  by code_simp

lemma hdfc_lower: "lower ''HDFC'' = ''hdfc''"
  by code_simp

lemma hdfc_reputable: "list_ex (\<lambda>k. str_in k ''hdfc'') cc_reputable_banks"
  by code_simp

text \<open>
  Claim C5, as stated: the example card is processed with
  \<open>fuel_surcharge_waiver = True\<close>. It is not: the description mentions fuel, but neither
  "fuel surcharge" nor "fuel waiver", which is what the processor looks for.
\<close>

theorem example_card_has_no_fuel_waiver:
  "and_then (cc_process_product sample_runtime example_card)
     (\<lambda>p. Inr (fuel_surcharge_waiver p)) = Inr False"
  by code_simp

text \<open>
  Claim C5, amended: under every interpreter the example card is processed with
  \<open>fuel_surcharge_waiver = False\<close> and \<open>lounge_access = True\<close>, and its score with empty
  preferences is 81: cashback 25, fee 25, benefits 15 (lounge 10, welcome 5),
  features 6, bank 10.
\<close>

theorem example_card_scores_81:
  "\<exists>p. cc_process_product rt example_card = Inr p
       \<and> fuel_surcharge_waiver p = False \<and> lounge_access p = True
       \<and> cc_calculate_score p [] = Inr 81"
  by (simp add: cc_process_product_def example_card_features example_card_annual_fee
      example_card_cashback_rate example_card_welcome_benefit example_card_fuel
      example_card_lounge example_card_name example_card_bank cc_calculate_score_def
      hdfc_lower hdfc_reputable del: str_in.simps)

section \<open>Properties of the rankers\<close>

subsection \<open>No boost is negative\<close>

lemma cc_query_relevance_nonneg: "0 \<le> cc_calculate_query_relevance p q"
proof (cases "q = []")
  case True
  then show ?thesis by (simp add: cc_calculate_query_relevance_def)
next
  case False
  have inner: "\<And>ft (w::string) (r::real). r \<le> fold (\<lambda>(cat, keywords) acc'.
            if w \<in> set keywords \<and> str_in cat ft then acc' + 0.1 else acc')
          cc_keyword_matches r"
    by (rule fold_ge_start) (simp split: prod.splits)
  have outer: "\<And>ft ws (r::real). r \<le> fold (\<lambda>query_word acc.
            fold (\<lambda>(cat, keywords) acc'.
              if query_word \<in> set keywords \<and> str_in cat ft then acc' + 0.1 else acc')
            cc_keyword_matches acc) ws r"
    by (rule fold_ge_start) (rule inner)
  have start: "\<And>c. (0::real) \<le> (if c then 0 + 0.3 else 0)"
    by simp
  show ?thesis
    unfolding cc_calculate_query_relevance_def Let_def if_not_P [OF False]
    by (rule min_nonneg) (rule order_trans [OF start outer], simp)
qed

lemma cc_category_loop_ge:
  "cc_category_loop ft cs a = Inr r \<Longrightarrow> a \<le> r"
proof (induction cs arbitrary: a)
  case Nil
  then show ?case by simp
next
  case (Cons c cs)
  from Cons.prems obtain cl where
    "cc_category_loop ft cs (if str_in cl ft then a + 0.1 else a) = Inr r"
    by (auto dest!: and_then_eq_InrD)
  from Cons.IH [OF this] show ?case
    by (simp split: if_splits)
qed

lemma cc_preference_alignment_nonneg:
  assumes "cc_calculate_preference_alignment p prefs = Inr a"
  shows "0 \<le> a"
proof -
  from assms obtain cats a2 a3 where
    loop: "cc_category_loop (feature_text p) cats a2 = Inr a3"
    and a: "a = min a3 1.0" and a2: "0 \<le> a2"
    unfolding cc_calculate_preference_alignment_def Let_def
    by (auto dest!: and_then_eq_InrD)
  from cc_category_loop_ge [OF loop] a2 show ?thesis
    unfolding a by simp
qed

lemma cc_category_optimization_nonneg: "0 \<le> cc_calculate_category_optimization p prefs"
proof -
  have "\<And>ft. (0::real) \<le> fold (\<lambda>(cat, bonus) acc. if str_in cat ft then acc + bonus else acc)
              cc_high_value_categories 0"
    by (simp add: cc_high_value_categories_def)
  then show ?thesis
    unfolding cc_calculate_category_optimization_def Let_def
    by (intro min_nonneg) simp_all
qed

lemma cc_enhanced_score_ge_base:
  assumes "cc_calculate_enhanced_score sp q prefs = Inr e" and "score sp \<le> 100"
  shows "score sp \<le> e"
proof -
  from assms(1) obtain a where a: "cc_calculate_preference_alignment (product' sp) prefs = Inr a"
    and e: "e = min (score sp + cc_calculate_query_relevance (product' sp) q * 5 + a * 3
                      + cc_calculate_category_optimization (product' sp) prefs * 2) 100"
    unfolding cc_calculate_enhanced_score_def Let_def
    by (auto dest!: and_then_eq_InrD)
  from cc_preference_alignment_nonneg [OF a] cc_query_relevance_nonneg [of "product' sp" q]
       cc_category_optimization_nonneg [of "product' sp" prefs] assms(2)
  show ?thesis unfolding e by simp
qed

lemma fd_tenure_alignment_nonneg:
  assumes "fd_calculate_tenure_alignment p prefs = Inr a"
  shows "0 \<le> a"
  using assms unfolding fd_calculate_tenure_alignment_def Let_def
  by (auto dest!: and_then_eq_InrD split: if_splits option.splits)

lemma fd_amount_alignment_nonneg:
  assumes "fd_calculate_amount_alignment p prefs = Inr a"
  shows "0 \<le> a"
  using assms unfolding fd_calculate_amount_alignment_def Let_def
  by (auto dest!: and_then_eq_InrD split: if_splits)

lemma fd_senior_citizen_boost_nonneg: "0 \<le> fd_calculate_senior_citizen_boost p prefs"
  unfolding fd_calculate_senior_citizen_boost_def Let_def by simp

lemma fd_query_relevance_nonneg: "0 \<le> fd_calculate_query_relevance p q"
proof (cases "q = []")
  case True
  then show ?thesis by (simp add: fd_calculate_query_relevance_def)
next
  case False
  have loop: "\<And>pt ws. (0::real) \<le> fold (\<lambda>query_word acc.
              if list_ex (\<lambda>(cat, keywords).
                   query_word \<in> set keywords \<and> str_in (no_spaces cat) (no_spaces pt))
                   fd_keywords
              then acc + 0.2 else acc) ws 0"
    by (rule fold_ge_start) simp
  have step: "\<And>c (r::real). 0 \<le> r \<Longrightarrow> 0 \<le> (if c then r + 0.3 else r)"
    by simp
  show ?thesis
    unfolding fd_calculate_query_relevance_def Let_def if_not_P [OF False]
    by (rule min_nonneg) (rule step, rule loop, simp)
qed

lemma fd_safety_boost_nonneg: "0 \<le> fd_calculate_safety_boost p"
  unfolding fd_calculate_safety_boost_def Let_def by simp

lemma fd_enhanced_score_ge_base:
  assumes "fd_calculate_enhanced_score sp q prefs = Inr e" and "score sp \<le> 100"
  shows "score sp \<le> e"
proof -
  from assms(1) obtain t a where
    t: "fd_calculate_tenure_alignment (product' sp) prefs = Inr t"
    and a: "fd_calculate_amount_alignment (product' sp) prefs = Inr a"
    and e: "e = min (score sp + t * 3 + a * 2
                      + fd_calculate_senior_citizen_boost (product' sp) prefs * 2
                      + fd_calculate_query_relevance (product' sp) q * 2
                      + fd_calculate_safety_boost (product' sp) * 1) 100"
    unfolding fd_calculate_enhanced_score_def Let_def
    by (auto dest!: and_then_eq_InrD)
  from fd_tenure_alignment_nonneg [OF t] fd_amount_alignment_nonneg [OF a]
       fd_senior_citizen_boost_nonneg [of "product' sp" prefs]
       fd_query_relevance_nonneg [of "product' sp" q]
       fd_safety_boost_nonneg [of "product' sp"] assms(2)
  show ?thesis unfolding e by simp
qed

lemma mf_goal_alignment_nonneg:
  assumes "mf_calculate_goal_alignment p prefs = Inr a"
  shows "0 \<le> a"
  using assms unfolding mf_calculate_goal_alignment_def Let_def enum_lower_def
  by (auto dest!: and_then_eq_InrD split: if_splits)

lemma if_Inr_max_nonneg:
  "(if c then Inr 0 else Inr (max x 0)) = (Inr a :: error + real) \<Longrightarrow> 0 \<le> a"
  by (cases c) auto

lemma if_and_then_max_nonneg:
  "(if c then Inr 0 else and_then m (\<lambda>y. Inr (max (g y) 0))) = (Inr a :: error + real)
     \<Longrightarrow> 0 \<le> a"
  by (cases c; cases m) auto

lemma mf_horizon_optimization_nonneg:
  assumes "mf_calculate_horizon_optimization p prefs = Inr a"
  shows "0 \<le> a"
  using assms unfolding mf_calculate_horizon_optimization_def Let_def
  by (elim and_then_eq_InrD [elim_format] exE conjE) (rule if_Inr_max_nonneg)

lemma mf_query_relevance_nonneg: "0 \<le> mf_calculate_query_relevance p q"
proof (cases "q = []")
  case True
  then show ?thesis by (simp add: mf_calculate_query_relevance_def)
next
  case False
  have loop: "\<And>pt ws (r::real). r \<le> fold (\<lambda>query_word acc.
              if list_ex (\<lambda>(cat, keywords).
                   query_word \<in> set keywords \<and> any_in keywords pt) mf_keywords
              then acc + 0.2 else acc) ws r"
    by (rule fold_ge_start) simp
  have start: "\<And>c. (0::real) \<le> (if c then 0 + 0.3 else 0)"
    by simp
  show ?thesis
    unfolding mf_calculate_query_relevance_def Let_def if_not_P [OF False]
    by (rule min_nonneg) (rule order_trans [OF start loop], simp)
qed

lemma mf_sip_suitability_nonneg:
  assumes "mf_calculate_sip_suitability p prefs = Inr a"
  shows "0 \<le> a"
  using assms unfolding mf_calculate_sip_suitability_def Let_def
  by (elim and_then_eq_InrD [elim_format] exE conjE) (rule if_and_then_max_nonneg)

lemma mf_enhanced_score_ge_base:
  assumes "mf_calculate_enhanced_score sp q prefs = Inr e" and "score sp \<le> 100"
  shows "score sp \<le> e"
proof -
  from assms(1) obtain g h s where
    g: "mf_calculate_goal_alignment (product' sp) prefs = Inr g"
    and h: "mf_calculate_horizon_optimization (product' sp) prefs = Inr h"
    and s: "mf_calculate_sip_suitability (product' sp) prefs = Inr s"
    and e: "e = min (score sp + g * 4 + h * 3
                      + mf_calculate_query_relevance (product' sp) q * 2 + s * 1) 100"
    unfolding mf_calculate_enhanced_score_def Let_def
    by (auto dest!: and_then_eq_InrD)
  from mf_goal_alignment_nonneg [OF g] mf_horizon_optimization_nonneg [OF h]
       mf_sip_suitability_nonneg [OF s]
       mf_query_relevance_nonneg [of "product' sp" q] assms(2)
  show ?thesis unfolding e by simp
qed

subsection \<open>What a ranker returns\<close>

text \<open>The common shape of the three \<open>rank_products\<close>: the enhanced products, sorted.\<close>

lemma ranked_shape:
  assumes "(if ps = [] then Inr []
            else and_then
                   (map_result (\<lambda>sp. and_then (enh sp)
                      (\<lambda>e. Inr \<lparr> product' = product' sp, score = e, reasoning = why sp e \<rparr>)) ps)
                   (\<lambda>enhanced. Inr (sort_by_score_desc enhanced))) = Inr ranked"
  shows "\<exists>enhanced. ranked = sort_by_score_desc enhanced
            \<and> list_all2 (\<lambda>sp e. product' e = product' sp \<and> enh sp = Inr (score e)) ps enhanced"
proof (cases "ps = []")
  case True
  with assms have "ranked = []" by simp
  with True show ?thesis by simp
next
  case False
  with assms obtain enhanced where
    m: "map_result (\<lambda>sp. and_then (enh sp)
          (\<lambda>e. Inr \<lparr> product' = product' sp, score = e, reasoning = why sp e \<rparr>)) ps
        = Inr enhanced"
    and r: "ranked = sort_by_score_desc enhanced"
    by (auto dest!: and_then_eq_InrD)
  from map_result_Inr [OF m]
  have "list_all2 (\<lambda>sp e. product' e = product' sp \<and> enh sp = Inr (score e)) ps enhanced"
    by (rule list_all2_mono) (auto dest!: and_then_eq_InrD)
  with r show ?thesis by blast
qed

lemma rank_products_shape:
  assumes "rank_products rk ps q prefs = Inr ranked"
  shows "\<exists>enhanced. ranked = sort_by_score_desc enhanced
            \<and> list_all2 (\<lambda>sp e. product' e = product' sp
                 \<and> (case rk of
                       CreditCardRanker \<Rightarrow> cc_calculate_enhanced_score sp q prefs
                     | FixedDepositRanker \<Rightarrow> fd_calculate_enhanced_score sp q prefs
                     | MutualFundRanker \<Rightarrow> mf_calculate_enhanced_score sp q prefs)
                    = Inr (score e)) ps enhanced"
proof (cases rk)
  case CreditCardRanker
  with assms show ?thesis
    by (simp add: cc_rank_products_def ranked_shape)
next
  case FixedDepositRanker
  with assms show ?thesis
    by (simp add: fd_rank_products_def ranked_shape)
next
  case MutualFundRanker
  with assms show ?thesis
    by (simp add: mf_rank_products_def ranked_shape)
qed

lemma rank_products_length_sorted:
  assumes "rank_products rk ps q prefs = Inr ranked"
  shows "length ranked = length ps \<and> sorted_wrt (\<lambda>a b. score b \<le> score a) ranked"
proof -
  from rank_products_shape [OF assms] obtain enhanced where
    r: "ranked = sort_by_score_desc enhanced" and "length ps = length enhanced"
    by (auto dest: list_all2_lengthD)
  then show ?thesis
    by (simp add: sorted_sort_by_score_desc)
qed

text \<open>The final \<open>min\<close> keeps every score a ranker emits at or below 100.\<close>

lemma enhanced_score_at_most_100:
  "cc_calculate_enhanced_score sp q prefs = Inr e \<Longrightarrow> e \<le> 100"
  "fd_calculate_enhanced_score sp q prefs = Inr e \<Longrightarrow> e \<le> 100"
  "mf_calculate_enhanced_score sp q prefs = Inr e \<Longrightarrow> e \<le> 100"
  unfolding cc_calculate_enhanced_score_def fd_calculate_enhanced_score_def
    mf_calculate_enhanced_score_def Let_def
  by (auto dest!: and_then_eq_InrD)

lemma rank_products_at_most_100:
  assumes "rank_products rk ps q prefs = Inr ranked"
  shows "\<forall>sp\<in>set ranked. score sp \<le> 100"
proof -
  from rank_products_shape [OF assms] obtain enhanced where
    r: "ranked = sort_by_score_desc enhanced"
    and l: "list_all2 (\<lambda>sp e. product' e = product' sp
                 \<and> (case rk of
                       CreditCardRanker \<Rightarrow> cc_calculate_enhanced_score sp q prefs
                     | FixedDepositRanker \<Rightarrow> fd_calculate_enhanced_score sp q prefs
                     | MutualFundRanker \<Rightarrow> mf_calculate_enhanced_score sp q prefs)
                    = Inr (score e)) ps enhanced"
    by blast
  have "\<forall>e\<in>set enhanced. score e \<le> 100"
  proof
    fix e assume "e \<in> set enhanced"
    then obtain i where i: "i < length enhanced" and e: "e = enhanced ! i"
      by (auto simp: in_set_conv_nth)
    from list_all2_nthD2 [OF l i] e show "score e \<le> 100"
      by (cases rk) (auto dest: enhanced_score_at_most_100)
  qed
  with r show ?thesis by simp
qed

text \<open>With empty preferences every ranker returns.\<close>

lemma cc_enhanced_score_empty_preferences:
  "\<exists>e. cc_calculate_enhanced_score sp q [] = Inr e"
  by (simp add: cc_calculate_enhanced_score_def cc_calculate_preference_alignment_def
      dict_get_def dict_get_or_def py_iter_def Let_def)

lemma fd_enhanced_score_empty_preferences:
  "\<exists>e. fd_calculate_enhanced_score sp q [] = Inr e"
  by (simp add: fd_calculate_enhanced_score_def fd_calculate_tenure_alignment_def
      fd_calculate_amount_alignment_def dict_get_def Let_def)

lemma mf_enhanced_score_empty_preferences:
  "\<exists>e. mf_calculate_enhanced_score sp q [] = Inr e"
  by (simp add: mf_calculate_enhanced_score_def mf_calculate_goal_alignment_def
      mf_calculate_horizon_optimization_def mf_calculate_sip_suitability_def
      dict_get_or_def lower_def Let_def)

lemma rank_products_empty_preferences:
  "\<exists>ranked. rank_products rk ps q [] = Inr ranked"
proof (cases rk)
  case CreditCardRanker
  have "\<exists>es. map_result (\<lambda>sp. and_then (cc_calculate_enhanced_score sp q [])
                  (\<lambda>e. Inr \<lparr> product' = product' sp, score = e,
                             reasoning = cc_generate_ranking_reasoning sp e \<rparr>)) ps = Inr es"
  proof (rule map_result_total)
    fix sp
    from cc_enhanced_score_empty_preferences [of sp q]
    show "\<exists>y. and_then (cc_calculate_enhanced_score sp q [])
                  (\<lambda>e. Inr \<lparr> product' = product' sp, score = e,
                             reasoning = cc_generate_ranking_reasoning sp e \<rparr>) = Inr y"
      by auto
  qed
  with CreditCardRanker show ?thesis
    by (auto simp: cc_rank_products_def)
next
  case FixedDepositRanker
  have "\<exists>es. map_result (\<lambda>sp. and_then (fd_calculate_enhanced_score sp q [])
                  (\<lambda>e. Inr \<lparr> product' = product' sp, score = e,
                             reasoning = fd_generate_ranking_reasoning sp e \<rparr>)) ps = Inr es"
  proof (rule map_result_total)
    fix sp
    from fd_enhanced_score_empty_preferences [of sp q]
    show "\<exists>y. and_then (fd_calculate_enhanced_score sp q [])
                  (\<lambda>e. Inr \<lparr> product' = product' sp, score = e,
                             reasoning = fd_generate_ranking_reasoning sp e \<rparr>) = Inr y"
      by auto
  qed
  with FixedDepositRanker show ?thesis
    by (auto simp: fd_rank_products_def)
next
  case MutualFundRanker
  have "\<exists>es. map_result (\<lambda>sp. and_then (mf_calculate_enhanced_score sp q [])
                  (\<lambda>e. Inr \<lparr> product' = product' sp, score = e,
                             reasoning = mf_generate_ranking_reasoning sp e \<rparr>)) ps = Inr es"
  proof (rule map_result_total)
    fix sp
    from mf_enhanced_score_empty_preferences [of sp q]
    show "\<exists>y. and_then (mf_calculate_enhanced_score sp q [])
                  (\<lambda>e. Inr \<lparr> product' = product' sp, score = e,
                             reasoning = mf_generate_ranking_reasoning sp e \<rparr>) = Inr y"
      by auto
  qed
  with MutualFundRanker show ?thesis
    by (auto simp: mf_rank_products_def)
qed

text \<open>
  Claim C2: for every list of scored products, query and preference map, a ranker
  returns a list of the same length in descending order of score. Whenever a ranker
  returns, its result has these two properties (\<open>rank_products_length_sorted\<close>), but the
  mutual fund ranker does not always return: when the preferences name an investment
  goal, the goal alignment calls \<open>lower\<close> on the product's category, a member of an
  enumeration, and \<open>rank_products\<close> raises \<open>AttributeError\<close> for every list that is not
  empty. Here the fund \<open>bluechip_fund\<close> is processed and scored, and the ranker is called
  on the result.
\<close>

theorem mutual_fund_ranker_raises_on_goal:
  "and_then (score_records sample_runtime MutualFundProcessor retirement_preferences
               [PDict bluechip_fund])
     (\<lambda>scored. Inr (length scored)) = Inr 1
   \<and> and_then (score_records sample_runtime MutualFundProcessor retirement_preferences
               [PDict bluechip_fund])
     (\<lambda>scored. mf_rank_products scored [] retirement_preferences) = Inl AttributeError"
  by code_simp

subsection \<open>Enhanced scores and base scores\<close>

text \<open>
  Claim C9: whenever a ranker returns, its result is the sorted list of the enhanced
  products, one for each product of the input and in the order of the input before
  sorting; each keeps its product and, the base scores being at most 100, has a score
  that is not below its base score.
\<close>

theorem enhanced_score_not_below_base:
  assumes "rank_products rk ps q prefs = Inr ranked"
    and "\<forall>sp\<in>set ps. score sp \<le> 100"
  shows "\<exists>enhanced. ranked = sort_by_score_desc enhanced
            \<and> list_all2 (\<lambda>sp e. product' e = product' sp \<and> score sp \<le> score e) ps enhanced"
proof -
  from rank_products_shape [OF assms(1)] obtain enhanced where
    r: "ranked = sort_by_score_desc enhanced"
    and l: "list_all2 (\<lambda>sp e. product' e = product' sp
                 \<and> (case rk of
                       CreditCardRanker \<Rightarrow> cc_calculate_enhanced_score sp q prefs
                     | FixedDepositRanker \<Rightarrow> fd_calculate_enhanced_score sp q prefs
                     | MutualFundRanker \<Rightarrow> mf_calculate_enhanced_score sp q prefs)
                    = Inr (score e)) ps enhanced"
    by blast
  from l have "list_all2 (\<lambda>sp e. product' e = product' sp \<and> score sp \<le> score e) ps enhanced"
  proof (rule list.rel_mono_strong)
    fix sp e
    assume "sp \<in> set ps"
      and "product' e = product' sp
           \<and> (case rk of
                 CreditCardRanker \<Rightarrow> cc_calculate_enhanced_score sp q prefs
               | FixedDepositRanker \<Rightarrow> fd_calculate_enhanced_score sp q prefs
               | MutualFundRanker \<Rightarrow> mf_calculate_enhanced_score sp q prefs)
              = Inr (score e)"
    with assms(2) show "product' e = product' sp \<and> score sp \<le> score e"
      by (cases rk)
         (auto dest: cc_enhanced_score_ge_base fd_enhanced_score_ge_base
            mf_enhanced_score_ge_base)
  qed
  with r show ?thesis by blast
qed

lemma zero_rate_ranked:
  "rank_products FixedDepositRanker [zero_rate_scored] ''sbi'' []
     = Inr [zero_rate_scored\<lparr> score := 31,
              reasoning := ''Base score: 30.0 Suitable option for your deposit needs.'' \<rparr>]"
  by code_simp

text \<open>
  Witness for claim C9: the fixed deposit ranker on one deposit with base score 30 and
  the query "sbi" returns it with score 31.
\<close>

theorem enhanced_score_not_below_base_witness:
  "rank_products FixedDepositRanker [zero_rate_scored] ''sbi'' []
     = Inr [zero_rate_scored\<lparr> score := 31,
              reasoning := ''Base score: 30.0 Suitable option for your deposit needs.'' \<rparr>]
   \<and> score zero_rate_scored = 30
   \<and> (\<exists>enhanced.
         [zero_rate_scored\<lparr> score := 31,
            reasoning := ''Base score: 30.0 Suitable option for your deposit needs.'' \<rparr>]
           = sort_by_score_desc enhanced
         \<and> list_all2 (\<lambda>sp e. product' e = product' sp \<and> score sp \<le> score e)
             [zero_rate_scored] enhanced)"
proof -
  have h: "\<forall>sp\<in>set [zero_rate_scored]. score sp \<le> 100"
    by (simp add: zero_rate_scored_def)
  from enhanced_score_not_below_base [OF zero_rate_ranked h] zero_rate_ranked
  show ?thesis by (simp add: zero_rate_scored_def)
qed

text \<open>
  The base scores the manager hands to a ranker are at most 100 (for raw records without
  a NaN, as above).
\<close>

lemma score_records_at_most_100:
  "score_records rt pr prefs raws = Inr sps \<Longrightarrow> \<forall>sp\<in>set sps. score sp \<le> 100"
proof (induction raws arbitrary: sps)
  case Nil
  then show ?case by simp
next
  case (Cons raw raws)
  show ?case
  proof (cases raw)
    case (PDict d)
    show ?thesis
    proof (cases "and_then (process_product rt pr d) (\<lambda>processed_product.
             and_then (calculate_score pr processed_product prefs) (\<lambda>sc.
               Inr \<lparr> product' = processed_product, score = sc,
                     reasoning = ''Base score: '' @ float_fmt1 rt sc \<rparr>))")
      case (Inl e)
      with Cons.prems PDict have "score_records rt pr prefs raws = Inr sps" by simp
      from Cons.IH [OF this] show ?thesis .
    next
      case (Inr sp)
      with Cons.prems PDict obtain rest where
        r: "score_records rt pr prefs raws = Inr rest" and s: "sps = sp # rest"
        by (auto dest!: and_then_eq_InrD)
      from Inr have "score sp \<le> 100"
        by (auto dest!: and_then_eq_InrD dest: calculate_score_at_most_100)
      with Cons.IH [OF r] s show ?thesis by simp
    qed
  qed (use Cons.prems in simp_all)
qed

section \<open>Recommendations\<close>

text \<open>
  Claim C8: \<open>recommend_products("", [], {}, 5)\<close> returns no product, \<open>total_found = 0\<close>
  and the "no products found" reasoning around the empty query, whatever the manager
  holds.
\<close>

theorem recommend_nothing_requested:
  "recommend_products rt m [] (Some []) (Some []) 5
     = \<lparr> products = [], total_found = 0, query_processed = [],
         recommendations_reasoning =
           ''No products found matching '' @ [CHR 0x27, CHR 0x27]
           @ ''. Try different search terms.'' \<rparr>"
  by (simp add: recommend_products_def rank_across_categories_def
      slice_to_def generate_recommendation_reasoning_def)

subsection \<open>The number of products found\<close>

lemma recommend_products_shape:
  "\<exists>all_products.
      products (recommend_products rt m q cats prefs n)
        = slice_to n (sort_by_score_desc all_products)
      \<and> total_found (recommend_products rt m q cats prefs n) = int (length all_products)"
  by (simp add: recommend_products_def Let_def rank_across_categories_def)
     (rule exI, rule conjI, rule refl, rule refl)

text \<open>The number found is computed from the merged list alone; the limit enters only in
  the slice.\<close>

lemma total_found_any_limit:
  "total_found (recommend_products rt m q cats prefs n)
     = total_found (recommend_products rt m q cats prefs n')"
  by (simp add: recommend_products_def Let_def)

lemma products_any_limit:
  "products (recommend_products rt m q cats prefs n)
     = slice_to n (products (recommend_products rt m q cats prefs
         (total_found (recommend_products rt m q cats prefs n'))))"
  by (simp add: recommend_products_def Let_def rank_across_categories_def slice_to_def)

lemma length_products:
  "int (length (products (recommend_products rt m q cats prefs n)))
     = (if 0 \<le> n then min n (total_found (recommend_products rt m q cats prefs n))
        else max 0 (total_found (recommend_products rt m q cats prefs n) + n))"
proof -
  obtain all_products where
    p: "products (recommend_products rt m q cats prefs n)
          = slice_to n (sort_by_score_desc all_products)"
    and t: "total_found (recommend_products rt m q cats prefs n) = int (length all_products)"
    using recommend_products_shape by blast
  show ?thesis
    unfolding p t by (auto simp: length_slice_to)
qed

text \<open>
  Claim C3, as stated: for every \<open>max_results\<close>, \<open>total_found\<close> equals the number of
  returned products exactly when \<open>total_found \<le> max_results\<close>. With no product found and
  \<open>max_results = -1\<close> the two numbers are equal (both 0), and 0 is not at most -1.
\<close>

theorem total_found_negative_limit:
  "total_found (recommend_products sample_runtime sample_manager [] (Some []) (Some []) (- 1))
     = int (length (products
         (recommend_products sample_runtime sample_manager [] (Some []) (Some []) (- 1))))
   \<and> \<not> total_found
         (recommend_products sample_runtime sample_manager [] (Some []) (Some []) (- 1))
       \<le> - 1"
  by code_simp

text \<open>
  Claim C3, amended: \<open>total_found\<close> counts the scored candidates before the list is cut
  to \<open>max_results\<close>. It does not depend on \<open>max_results\<close>: the call with any other limit
  \<open>max_results'\<close> reports the same number. It is the number of products the call returns
  when the limit is \<open>total_found\<close> itself, and the products of the call are the slice
  \<open>[:max_results]\<close> of that uncut list. The number of returned products is
  \<open>min(max_results, total_found)\<close> for a limit that is not negative and
  \<open>max(0, total_found + max_results)\<close> for a negative one, so it never exceeds
  \<open>total_found\<close>; and whenever \<open>max_results\<close> is not negative or a product was found,
  the two numbers are equal exactly when \<open>total_found \<le> max_results\<close>.
\<close>

theorem total_found_counts_before_truncation:
  "total_found (recommend_products rt m q cats prefs n)
     = total_found (recommend_products rt m q cats prefs n')
   \<and> total_found (recommend_products rt m q cats prefs n)
       = int (length (products (recommend_products rt m q cats prefs
           (total_found (recommend_products rt m q cats prefs n)))))
   \<and> products (recommend_products rt m q cats prefs n)
       = slice_to n (products (recommend_products rt m q cats prefs
           (total_found (recommend_products rt m q cats prefs n))))
   \<and> int (length (products (recommend_products rt m q cats prefs n)))
       = (if 0 \<le> n then min n (total_found (recommend_products rt m q cats prefs n))
          else max 0 (total_found (recommend_products rt m q cats prefs n) + n))
   \<and> int (length (products (recommend_products rt m q cats prefs n)))
       \<le> total_found (recommend_products rt m q cats prefs n)
   \<and> (0 \<le> n \<or> 0 < total_found (recommend_products rt m q cats prefs n) \<longrightarrow>
        (total_found (recommend_products rt m q cats prefs n)
           = int (length (products (recommend_products rt m q cats prefs n)))
         \<longleftrightarrow> total_found (recommend_products rt m q cats prefs n) \<le> n))"
proof -
  define found where "found = total_found (recommend_products rt m q cats prefs n)"
  have nonneg: "0 \<le> found"
    using recommend_products_shape [of rt m q cats prefs n] by (auto simp: found_def)
  have same: "total_found (recommend_products rt m q cats prefs n')
                = found"
    and same': "total_found (recommend_products rt m q cats prefs found) = found"
    unfolding found_def by (rule total_found_any_limit)+
  have len: "int (length (products (recommend_products rt m q cats prefs n)))
               = (if 0 \<le> n then min n found else max 0 (found + n))"
    unfolding found_def by (rule length_products)
  have uncut: "int (length (products (recommend_products rt m q cats prefs found))) = found"
    using length_products [of rt m q cats prefs found] nonneg by (simp add: same')
  have slice: "products (recommend_products rt m q cats prefs n)
                 = slice_to n (products (recommend_products rt m q cats prefs found))"
    unfolding found_def by (rule products_any_limit)
  from nonneg same len uncut slice show ?thesis
    unfolding found_def [symmetric] by auto
qed


lemma sample_deposits_found:
  "\<exists>ps. process_category sample_runtime sample_manager FIXED_DEPOSITS [] [] = Inr ps
        \<and> length ps = 1"
proof -
  have "and_then (process_category sample_runtime sample_manager FIXED_DEPOSITS [] [])
          (\<lambda>ps. Inr (length ps)) = Inr 1"
    by code_simp
  then show ?thesis by (auto dest!: and_then_eq_InrD)
qed

lemma sample_funds_found:
  "\<exists>ps. process_category sample_runtime sample_manager MUTUAL_FUNDS [] [] = Inr ps
        \<and> length ps = 2"
proof -
  have "and_then (process_category sample_runtime sample_manager MUTUAL_FUNDS [] [])
          (\<lambda>ps. Inr (length ps)) = Inr 2"
    by code_simp
  then show ?thesis by (auto dest!: and_then_eq_InrD)
qed

lemma sample_two_categories:
  "total_found (recommend_products sample_runtime sample_manager []
      (Some [FIXED_DEPOSITS, MUTUAL_FUNDS]) None 2) = 3
   \<and> length (products (recommend_products sample_runtime sample_manager []
      (Some [FIXED_DEPOSITS, MUTUAL_FUNDS]) None 2)) = 2
   \<and> total_found (recommend_products sample_runtime sample_manager []
      (Some [FIXED_DEPOSITS, MUTUAL_FUNDS]) None (- 2)) = 3
   \<and> length (products (recommend_products sample_runtime sample_manager []
      (Some [FIXED_DEPOSITS, MUTUAL_FUNDS]) None (- 2))) = 1"
proof -
  from sample_deposits_found obtain fds where
    f: "process_category sample_runtime sample_manager FIXED_DEPOSITS [] [] = Inr fds"
    and fl: "length fds = 1" by blast
  from sample_funds_found obtain mfs where
    m: "process_category sample_runtime sample_manager MUTUAL_FUNDS [] [] = Inr mfs"
    and ml: "length mfs = 2" by blast
  show ?thesis
    by (simp add: recommend_products_def Let_def rank_across_categories_def f m fl ml
        length_slice_to)
qed

text \<open>
  Witness for claim C3 (amended): the sample deposits and funds give three products,
  whatever the limit; two are returned for \<open>max_results = 2\<close> and one for
  \<open>max_results = -2\<close>, and three is at most neither limit.
\<close>

theorem total_found_counts_before_truncation_witness:
  "(0::int) \<le> 2 \<and> (0::int) < 3
   \<and> total_found (recommend_products sample_runtime sample_manager []
        (Some [FIXED_DEPOSITS, MUTUAL_FUNDS]) None 2) = 3
   \<and> total_found (recommend_products sample_runtime sample_manager []
        (Some [FIXED_DEPOSITS, MUTUAL_FUNDS]) None (- 2)) = 3
   \<and> length (products (recommend_products sample_runtime sample_manager []
        (Some [FIXED_DEPOSITS, MUTUAL_FUNDS]) None 2)) = 2
   \<and> length (products (recommend_products sample_runtime sample_manager []
        (Some [FIXED_DEPOSITS, MUTUAL_FUNDS]) None (- 2))) = 1
   \<and> length (products (recommend_products sample_runtime sample_manager []
        (Some [FIXED_DEPOSITS, MUTUAL_FUNDS]) None 3)) = 3
   \<and> \<not> (3::int) \<le> 2 \<and> \<not> (3::int) \<le> - 2"
  using total_found_counts_before_truncation
          [of sample_runtime sample_manager "[]" "Some [FIXED_DEPOSITS, MUTUAL_FUNDS]" None 2
              "- 2"]
        total_found_counts_before_truncation
          [of sample_runtime sample_manager "[]" "Some [FIXED_DEPOSITS, MUTUAL_FUNDS]" None
              "- 2" 2]
        sample_two_categories
  by simp

subsection \<open>Categories without a processor\<close>
















end
